theory Spec2Isabelle
  imports Complex_Main "HOL-Library.Sublist"
begin

section \<open>JavaScript values\<close>

text \<open>
  The helper script \<^verbatim>\<open>window.AdhdoneAI\<close> (the second document of
  \<^verbatim>\<open>authRedirectBootstrap.ts\<close>) is dynamically typed. The values it inspects
  are modelled by \<open>jsval\<close>. A number is NaN, an infinity or a finite value; every finite
  double is a rational, and the only arithmetic the script performs (halving, rounding to
  the nearest integer, a maximum) is exact on doubles, so \<open>rat\<close> carries it without
  rounding error.

  The sign-in bootstrap (the first document of the file), \<^verbatim>\<open>setApiKey\<close>,
  \<^verbatim>\<open>getState\<close> and \<^verbatim>\<open>requestOpenAI\<close> take no part in the properties below
  and are left out.
\<close>

datatype jsnum = NaN | NegInf | Fin rat | PosInf

text \<open>
  A string is the list of its UTF-16 code units, numbers below 65536 (nothing below
  depends on the bound). \<open>js\<close> turns an ASCII literal of this text into the
  string it denotes.
\<close>

type_synonym jstring = "nat list"

definition js :: "string \<Rightarrow> jstring" where
  "js s = map of_char s"

datatype jsval =
    JUndefined
  | JNull
  | JBool bool
  | JNumber jsnum
  | JString jstring
  | JArray "jsval list"
  | JObject "(jstring \<times> jsval) list"

text \<open>Truthiness, as \<^verbatim>\<open>!v\<close>, \<^verbatim>\<open>a || b\<close> and \<^verbatim>\<open>if (v)\<close> read it.\<close>

fun truthy :: "jsval \<Rightarrow> bool" where
  "truthy JUndefined = False"
| "truthy JNull = False"
| "truthy (JBool b) = b"
| "truthy (JNumber n) = (n \<noteq> NaN \<and> n \<noteq> Fin 0)"
| "truthy (JString s) = (s \<noteq> [])"
| "truthy (JArray xs) = True"
| "truthy (JObject kvs) = True"

text \<open>\<^verbatim>\<open>a || b\<close>\<close>

definition js_or :: "jsval \<Rightarrow> jsval \<Rightarrow> jsval" where
  "js_or a b = (if truthy a then a else b)"

text \<open>
  \<^verbatim>\<open>v?.k\<close> and \<^verbatim>\<open>v.k\<close> on a value that is not null or undefined, for the
  property names the script reads (none of them is a built-in member of a string, a
  number or an array).
\<close>

fun get_prop :: "jsval \<Rightarrow> jstring \<Rightarrow> jsval" where
  "get_prop (JObject kvs) k = (case map_of kvs k of None \<Rightarrow> JUndefined | Some v \<Rightarrow> v)"
| "get_prop v k = JUndefined"

text \<open>\<^verbatim>\<open>v?.[0]\<close>\<close>

fun get_index0 :: "jsval \<Rightarrow> jsval" where
  "get_index0 (JArray xs) = (case xs of [] \<Rightarrow> JUndefined | x # rest \<Rightarrow> x)"
| "get_index0 (JString s) = (case s of [] \<Rightarrow> JUndefined | c # rest \<Rightarrow> JString [c])"
| "get_index0 (JObject kvs) = (case map_of kvs (js ''0'') of None \<Rightarrow> JUndefined | Some v \<Rightarrow> v)"
| "get_index0 v = JUndefined"

text \<open>\<^verbatim>\<open>x * 0.5\<close> on a number.\<close>

fun times_half :: "jsnum \<Rightarrow> jsnum" where
  "times_half (Fin r) = Fin (r * (1 / 2))"
| "times_half n = n"

text \<open>
  \<^verbatim>\<open>Math.round\<close>: the nearest integer, a tie going towards plus infinity.
\<close>

fun Math_round :: "jsnum \<Rightarrow> jsnum" where
  "Math_round (Fin r) = Fin (of_int \<lfloor>r + 1 / 2\<rfloor>)"
| "Math_round n = n"

text \<open>\<^verbatim>\<open>Math.max\<close> of two numbers.\<close>

fun Math_max :: "jsnum \<Rightarrow> jsnum \<Rightarrow> jsnum" where
  "Math_max NaN y = NaN"
| "Math_max x NaN = NaN"
| "Math_max PosInf y = PosInf"
| "Math_max x PosInf = PosInf"
| "Math_max NegInf y = y"
| "Math_max x NegInf = x"
| "Math_max (Fin a) (Fin b) = Fin (max a b)"

text \<open>\<^verbatim>\<open>a < b\<close> on numbers (false whenever NaN is involved).\<close>

fun js_less :: "jsnum \<Rightarrow> jsnum \<Rightarrow> bool" where
  "js_less NaN y = False"
| "js_less x NaN = False"
| "js_less x NegInf = False"
| "js_less NegInf y = True"
| "js_less PosInf y = False"
| "js_less x PosInf = True"
| "js_less (Fin a) (Fin b) = (a < b)"

text \<open>Decimal rendering of a count inside a template literal.\<close>

fun show_nat :: "nat \<Rightarrow> jstring" where
  "show_nat n =
     (if n < 10 then [48 + n]
      else show_nat (n div 10) @ [48 + n mod 10])"

declare show_nat.simps [simp del]

text \<open>
  \<^verbatim>\<open>String.prototype.trim\<close> removes white space and line terminators from both
  ends: tab, line feed, vertical tab, form feed, carriage return, space, no-break
  space, U+1680, U+2000 to U+200A, U+2028, U+2029, U+202F, U+205F, U+3000 and U+FEFF.
\<close>

definition is_space :: "nat \<Rightarrow> bool" where
  "is_space c =
     (c \<in> set [9, 10, 11, 12, 13, 32, 160, 5760, 8232, 8233, 8239, 8287, 12288, 65279]
      \<or> (8192 \<le> c \<and> c \<le> 8202))"

definition trim :: "jstring \<Rightarrow> jstring" where
  "trim s = rev (dropWhile is_space (rev (dropWhile is_space s)))"

section \<open>Data model\<close>

record interaction_entry =
  e_action :: jstring
  e_timestamp :: jstring
  e_context :: jsval

record task_state =
  history :: "interaction_entry list"
  consecutiveSkips :: nat
  lastSuggestionTimestamp :: int

record adjustments =
  suggestedStartStep :: jsval
  reminderIntervalMinutes :: jsval

record suggestion =
  s_taskId :: jstring
  s_reason :: jstring
  s_message :: jsval
  recommendedAdjustments :: adjustments
  s_rawResponse :: "jsval option"
  s_error :: "jstring option"

record brain_dump_record =
  r_items :: "jstring list"
  r_timestamp :: jstring

record global_state =
  tasks :: "jstring \<rightharpoonup> task_state"
  lastSuggestion :: "jstring \<rightharpoonup> suggestion"
  brainDumpHistory :: "brain_dump_record list"

text \<open>
  The process-wide \<^verbatim>\<open>state\<close> object together with what
  \<^verbatim>\<open>localStorage\<close> holds under \<^verbatim>\<open>STORAGE_KEY\<close> (the state as it was
  last serialised, if ever).
\<close>

record world =
  state :: global_state
  storage :: "global_state option"

text \<open>
  The state that lines 136 to 143 build when \<^verbatim>\<open>localStorage\<close> holds nothing
  under \<^verbatim>\<open>STORAGE_KEY\<close>.
\<close>

definition initial_state :: global_state where
  "initial_state = \<lparr>tasks = Map.empty, lastSuggestion = Map.empty, brainDumpHistory = []\<rparr>"

definition initial_world :: world where
  "initial_world = \<lparr>state = initial_state, storage = None\<rparr>"

section \<open>The host environment of one call\<close>

record http_response =
  ok :: bool
  status :: nat
  json_body :: "jstring + jsval"

datatype fetch_outcome = FetchRejected jstring | FetchResponse http_response

text \<open>
  What one call of the API observes of its surroundings: whether \<^verbatim>\<open>global.fetch\<close>
  exists, whether writing to \<^verbatim>\<open>localStorage\<close> succeeds, the stored API key
  (\<^verbatim>\<open>getApiKey()\<close>), the clock (\<^verbatim>\<open>Date.now()\<close> and
  \<^verbatim>\<open>new Date().toISOString()\<close>), how the completion service answers the one
  request the call may send (\<open>json_body\<close> is \<open>Inl msg\<close> when
  \<^verbatim>\<open>response.json()\<close> rejects with message \<open>msg\<close>), and the language's
  built-ins the script relies on: \<^verbatim>\<open>JSON.parse\<close> (\<open>None\<close> for a syntax
  error), the conversion of strings and objects to numbers, the conversion of values
  to strings, and the messages of two TypeErrors: the one that strict mode raises when
  a property is assigned on a primitive, and the one raised when a property of
  \<^verbatim>\<open>undefined\<close> is read.
\<close>

record env =
  has_fetch :: bool
  storage_ok :: bool
  api_key :: jstring
  now_ms :: int
  now_iso :: jstring
  fetch_result :: fetch_outcome
  JSON_parse :: "jstring \<Rightarrow> jsval option"
  ToNumber_host :: "jsval \<Rightarrow> jsnum"
  ToString_host :: "jsval \<Rightarrow> jstring"
  assign_error_message :: "jsval \<Rightarrow> jstring"
  undefined_read_message :: jstring

text \<open>\<^verbatim>\<open>ToNumber\<close>, as the multiplication applies it to its operand.\<close>

fun ToNumber :: "env \<Rightarrow> jsval \<Rightarrow> jsnum" where
  "ToNumber h JUndefined = NaN"
| "ToNumber h JNull = Fin 0"
| "ToNumber h (JBool b) = Fin (if b then 1 else 0)"
| "ToNumber h (JNumber n) = n"
| "ToNumber h v = ToNumber_host h v"

text \<open>\<^verbatim>\<open>String(v)\<close>, as \<^verbatim>\<open>new Error(v)\<close> applies it to its message.\<close>

fun ToString :: "env \<Rightarrow> jsval \<Rightarrow> jstring" where
  "ToString h (JString s) = s"
| "ToString h v = ToString_host h v"

section \<open>Plain objects as dictionaries\<close>

text \<open>
  \<^verbatim>\<open>state.tasks\<close> and \<^verbatim>\<open>state.lastSuggestion\<close> are plain objects. Reading
  \<^verbatim>\<open>obj[key]\<close> finds the object's own property if it has one, and otherwise the
  member of that name that every plain object inherits from
  \<^verbatim>\<open>Object.prototype\<close>, if there is one. The inherited members are functions, and
  \<^verbatim>\<open>__proto__\<close> reads as the prototype object itself: all of them are truthy, and
  none has a property \<^verbatim>\<open>history\<close>. Assignment creates an own property and
  \<^verbatim>\<open>delete\<close> removes own properties only.
\<close>

definition inherited_names :: "jstring list" where
  "inherited_names =
     map js [''constructor'', ''__defineGetter__'', ''__defineSetter__'', ''hasOwnProperty'',
       ''__lookupGetter__'', ''__lookupSetter__'', ''isPrototypeOf'', ''propertyIsEnumerable'',
       ''toString'', ''valueOf'', ''__proto__'', ''toLocaleString'']"

datatype 'a looked_up = Absent | Own 'a | Inherited

definition obj_lookup :: "(jstring \<rightharpoonup> 'a) \<Rightarrow> jstring \<Rightarrow> 'a looked_up" where
  "obj_lookup m k =
     (case m k of
        Some v \<Rightarrow> Own v
      | None \<Rightarrow> if k \<in> set inherited_names then Inherited else Absent)"

section \<open>Persistent state store\<close>

text \<open>
  \<^verbatim>\<open>safeParse(json, fallback)\<close>: the fallback for an empty string or a syntax
  error, the parsed value otherwise. The script calls it on strings only.
\<close>

definition safeParse :: "env \<Rightarrow> jstring \<Rightarrow> jsval \<Rightarrow> jsval" where
  "safeParse h json fallback =
     (if json = [] then fallback
      else case JSON_parse h json of None \<Rightarrow> fallback | Some v \<Rightarrow> v)"

text \<open>
  \<^verbatim>\<open>persistState()\<close>: \<^verbatim>\<open>saveToStorage(STORAGE_KEY, state)\<close>, which swallows
  every failure.
\<close>

definition persistState :: "env \<Rightarrow> world \<Rightarrow> world" where
  "persistState h w = (if storage_ok h then w\<lparr>storage := Some (state w)\<rparr> else w)"

section \<open>Task interaction tracker\<close>

definition new_task_state :: task_state where
  "new_task_state = \<lparr>history = [], consecutiveSkips = 0, lastSuggestionTimestamp = 0\<rparr>"

text \<open>
  \<^verbatim>\<open>getTaskState(taskId)\<close> returns what \<^verbatim>\<open>state.tasks[taskId]\<close> finds
  when that is truthy, and creates and stores a fresh record otherwise. \<open>None\<close>
  stands for an inherited member: a built-in object that is no task record.
\<close>

definition getTaskState :: "jstring \<Rightarrow> global_state \<Rightarrow> task_state option \<times> global_state" where
  "getTaskState taskId st =
     (case obj_lookup (tasks st) taskId of
        Own existing \<Rightarrow> (Some existing, st)
      | Inherited \<Rightarrow> (None, st)
      | Absent \<Rightarrow> (Some new_task_state, st\<lparr>tasks := (tasks st)(taskId \<mapsto> new_task_state)\<rparr>))"

definition MAX_HISTORY :: nat where
  "MAX_HISTORY = 50"

text \<open>
  \<^verbatim>\<open>trackHistory\<close>: push, then \<^verbatim>\<open>splice(0, length - MAX_HISTORY)\<close> when the
  list has grown beyond the bound.
\<close>

definition trackHistory :: "task_state \<Rightarrow> interaction_entry \<Rightarrow> task_state" where
  "trackHistory taskState entry =
     (let pushed = history taskState @ [entry]
      in taskState\<lparr>history :=
           (if length pushed > MAX_HISTORY
            then drop (length pushed - MAX_HISTORY) pushed
            else pushed)\<rparr>)"

record reminder_summary =
  sm_taskId :: jstring
  sm_consecutiveSkips :: nat
  recentInteractions :: "interaction_entry list"
  sm_context :: jsval

text \<open>\<^verbatim>\<open>buildReminderSummary\<close>; \<^verbatim>\<open>history.slice(-5)\<close> is the last five entries.\<close>

definition buildReminderSummary :: "jstring \<Rightarrow> task_state \<Rightarrow> jsval \<Rightarrow> reminder_summary" where
  "buildReminderSummary taskId taskState ctx =
     \<lparr>sm_taskId = taskId,
      sm_consecutiveSkips = consecutiveSkips taskState,
      recentInteractions = drop (length (history taskState) - 5) (history taskState),
      sm_context = js_or ctx (JObject [])\<rparr>"

section \<open>Completion client\<close>

text \<open>\<^verbatim>\<open>payload?.output?.[0]?.content?.[0]?.text\<close>\<close>

definition output_text :: "jsval \<Rightarrow> jsval" where
  "output_text payload =
     get_prop (get_index0 (get_prop (get_index0 (get_prop payload (js ''output''))) (js ''content'')))
       (js ''text'')"

text \<open>
  \<^verbatim>\<open>callOpenAI\<close>: \<open>Inl msg\<close> is a thrown \<^verbatim>\<open>Error\<close> with message
  \<open>msg\<close> (or the rejection of \<^verbatim>\<open>fetch\<close> or of \<^verbatim>\<open>response.json()\<close>),
  \<open>Inr text\<close> the trimmed answer. The request (model, temperature, prompt) is not
  part of the model: the service's answer is given by the environment.
\<close>

definition callOpenAI :: "env \<Rightarrow> jstring + jstring" where
  "callOpenAI h =
     (if api_key h = [] then Inl (js ''Missing OpenAI API key'')
      else case fetch_result h of
        FetchRejected msg \<Rightarrow> Inl msg
      | FetchResponse response \<Rightarrow>
          if \<not> ok response then
            (let errorPayload = (case json_body response of Inl e \<Rightarrow> JObject [] | Inr v \<Rightarrow> v);
                 m = get_prop (get_prop errorPayload (js ''error'')) (js ''message'')
             in Inl (if truthy m then ToString h m
                     else (js ''OpenAI request failed with status '') @ show_nat (status response)))
          else
            (case json_body response of
               Inl e \<Rightarrow> Inl e
             | Inr payload \<Rightarrow>
                 (case output_text payload of
                    JString t \<Rightarrow>
                      if trim t = [] then Inl (js ''OpenAI returned an unexpected response format'')
                      else Inr (trim t)
                  | other \<Rightarrow> Inl (js ''OpenAI returned an unexpected response format''))))"

section \<open>Suggestion generator\<close>

definition fallbackReminderSuggestion :: "env \<Rightarrow> reminder_summary \<Rightarrow> suggestion" where
  "fallbackReminderSuggestion h summary =
     \<lparr>s_taskId = sm_taskId summary,
      s_reason = js ''consecutive-skips'',
      s_message = JString ((js ''You've skipped this task '') @ show_nat (sm_consecutiveSkips summary)
        @ js '' times. ''
        @ js ''Try choosing a smaller first step and consider shortening the reminder interval.''),
      recommendedAdjustments =
        \<lparr>suggestedStartStep =
           js_or (get_prop (sm_context summary) (js ''baselineStep''))
             (JString (js ''Set a 2-minute timer and only prep the very first thing.'')),
         reminderIntervalMinutes =
           JNumber (Math_max (Fin 15)
             (Math_round (times_half
                (ToNumber h (js_or (get_prop (sm_context summary) (js ''reminderIntervalMinutes''))
                   (JNumber (Fin 45)))))))\<rparr>,
      s_rawResponse = None,
      s_error = None\<rparr>"

text \<open>
  \<^verbatim>\<open>generateReminderAdjustments(summary, {forceFallback})\<close>. The
  \<^verbatim>\<open>catch\<close> clause covers everything \<^verbatim>\<open>callOpenAI\<close> throws.
\<close>

definition generateReminderAdjustments :: "env \<Rightarrow> reminder_summary \<Rightarrow> bool \<Rightarrow> suggestion" where
  "generateReminderAdjustments h summary forceFallback =
     (if \<not> has_fetch h \<or> forceFallback then fallbackReminderSuggestion h summary
      else case callOpenAI h of
        Inl msg \<Rightarrow> (fallbackReminderSuggestion h summary)\<lparr>s_error := Some msg\<rparr>
      | Inr t \<Rightarrow>
          (let parsed = safeParse h t JNull
           in if \<not> truthy parsed
              then (fallbackReminderSuggestion h summary)\<lparr>s_rawResponse := Some (JString t)\<rparr>
              else
                \<lparr>s_taskId = sm_taskId summary,
                 s_reason = js ''consecutive-skips'',
                 s_message = js_or (get_prop parsed (js ''message''))
                   (JString (js ''Let's tweak this reminder with something gentler and more specific.'')),
                 recommendedAdjustments =
                   \<lparr>suggestedStartStep = get_prop parsed (js ''suggestedStartStep''),
                    reminderIntervalMinutes = get_prop parsed (js ''reminderIntervalMinutes'')\<rparr>,
                 s_rawResponse = Some parsed,
                 s_error = None\<rparr>))"

definition ONE_HOUR :: int where
  "ONE_HOUR = 60 * 60 * 1000"

definition shouldThrottleSuggestion :: "task_state \<Rightarrow> int \<Rightarrow> bool" where
  "shouldThrottleSuggestion taskState nowMs =
     (nowMs - lastSuggestionTimestamp taskState < ONE_HOUR)"

text \<open>
  The argument object of \<^verbatim>\<open>recordReminderInteraction\<close>. A missing
  \<^verbatim>\<open>taskId\<close>, \<^verbatim>\<open>action\<close> or \<^verbatim>\<open>timestamp\<close> is \<open>None\<close>, a missing
  \<^verbatim>\<open>context\<close> is \<open>JUndefined\<close>. The optional callback
  \<^verbatim>\<open>onSuggestion\<close> belongs to the caller and is not modelled.
\<close>

record interaction_args =
  a_taskId :: "jstring option"
  a_action :: "jstring option"
  a_timestamp :: "jstring option"
  a_context :: jsval
  a_forceFallback :: bool

datatype js_error = Error jstring | TypeError jstring

text \<open>
  How a call of an API function ends for its caller: with an exception thrown while
  the call is made, with a promise that is rejected, or with a promise that resolves
  to a value. \<^verbatim>\<open>recordReminderInteraction\<close> and \<^verbatim>\<open>organizeBrainDump\<close> are
  declared \<^verbatim>\<open>async\<close>: an exception raised in their body rejects the promise they
  return.
\<close>

datatype 'a outcome = Throws js_error | Rejects js_error | Resolves 'a

text \<open>\<^verbatim>\<open>!v\<close> on an optional string.\<close>

definition missing :: "jstring option \<Rightarrow> bool" where
  "missing v = (case v of None \<Rightarrow> True | Some s \<Rightarrow> s = [])"

text \<open>
  \<^verbatim>\<open>recordReminderInteraction\<close>. The promise resolves to \<open>None\<close> for
  \<^verbatim>\<open>null\<close> and to \<open>Some s\<close> for a suggestion. When the lookup of line 150
  finds an inherited member, lines 326 to 330 write the counter on that built-in
  object (\<^verbatim>\<open>undefined + 1\<close>, which is NaN, or 0: a falsy property of an object
  that is no part of \<^verbatim>\<open>state\<close>) and line 165 reads its \<^verbatim>\<open>history\<close>,
  which is undefined: the TypeError rejects the promise before anything is stored or
  persisted.

  Lines 342 and 343 are the update of two own properties. That is what line 342 is for
  every task identifier but \<^verbatim>\<open>__proto__\<close>, and with that identifier a call gets
  as far as line 342 only when the task table has an own property \<^verbatim>\<open>__proto__\<close>:
  no call of the script creates one, so that such a table can only come from stored
  JSON that the script did not write.
\<close>

definition recordReminderInteraction ::
  "env \<Rightarrow> interaction_args \<Rightarrow> world \<Rightarrow> suggestion option outcome \<times> world" where
  "recordReminderInteraction h args w =
     (if missing (a_taskId args) \<or> missing (a_action args)
      then (Rejects (Error (js ''recordReminderInteraction requires a taskId and action'')), w)
      else
        let taskId = the (a_taskId args);
            action = the (a_action args);
            timestamp = (case a_timestamp args of None \<Rightarrow> now_iso h | Some t \<Rightarrow> t);
            ctx = (if a_context args = JUndefined then JObject [] else a_context args);
            found = getTaskState taskId (state w);
            actionEntry = \<lparr>e_action = action, e_timestamp = timestamp, e_context = ctx\<rparr>
        in case fst found of
          None \<Rightarrow> (Rejects (TypeError (undefined_read_message h)), w)
        | Some taskState0 \<Rightarrow>
            let st0 = snd found;
                taskState1 =
                  (if action = js ''skip''
                   then taskState0\<lparr>consecutiveSkips := consecutiveSkips taskState0 + 1\<rparr>
                   else if action = js ''complete'' \<or> action = js ''snooze''
                   then taskState0\<lparr>consecutiveSkips := 0\<rparr>
                   else taskState0);
                taskState2 = trackHistory taskState1 actionEntry;
                w1 = persistState h (w\<lparr>state := st0\<lparr>tasks := (tasks st0)(taskId \<mapsto> taskState2)\<rparr>\<rparr>);
                summary = buildReminderSummary taskId taskState2 ctx;
                nowMs = now_ms h
            in if consecutiveSkips taskState2 \<ge> 3 \<and> \<not> shouldThrottleSuggestion taskState2 nowMs
               then
                 let suggestion = generateReminderAdjustments h summary (a_forceFallback args);
                     st1 = state w1;
                     w2 = persistState h
                       (w1\<lparr>state := st1
                          \<lparr>lastSuggestion := (lastSuggestion st1)(taskId \<mapsto> suggestion),
                           tasks := (tasks st1)
                             (taskId \<mapsto> taskState2\<lparr>lastSuggestionTimestamp := nowMs\<rparr>)\<rparr>\<rparr>)
                 in (Resolves (Some suggestion), w2)
               else (Resolves None, w1))"

text \<open>
  \<^verbatim>\<open>state.lastSuggestion?.[taskId] || null\<close>: \<open>Absent\<close> is \<^verbatim>\<open>null\<close>,
  \<open>Own s\<close> the stored suggestion, \<open>Inherited\<close> the inherited member of that
  name.
\<close>

definition getLastSuggestion :: "jstring \<Rightarrow> world \<Rightarrow> suggestion looked_up" where
  "getLastSuggestion taskId w = obj_lookup (lastSuggestion (state w)) taskId"

text \<open>\<^verbatim>\<open>resetTaskHistory\<close>: both \<^verbatim>\<open>delete\<close>s remove own properties.\<close>

definition resetTaskHistory :: "env \<Rightarrow> jstring \<Rightarrow> world \<Rightarrow> world" where
  "resetTaskHistory h taskId w =
     (if taskId = [] then w
      else persistState h
        (w\<lparr>state := (state w)
           \<lparr>tasks := (tasks (state w))(taskId := None),
            lastSuggestion := (lastSuggestion (state w))(taskId := None)\<rparr>\<rparr>))"

section \<open>Brain dump organizer\<close>

text \<open>
  The matchers of \<^verbatim>\<open>focusBuckets\<close> are alternations of lower-case ASCII words
  under the flag \<^verbatim>\<open>i\<close>: \<^verbatim>\<open>matcher.test(text)\<close> holds when one of the words
  occurs somewhere in the text, letters compared without regard to case. Without the
  flag \<^verbatim>\<open>u\<close> a code unit beyond ASCII never equals an ASCII letter in this
  comparison, so folding the letters A to Z of the text is all there is to it. The
  search is written out as the scan over start positions that it is.
\<close>

definition to_lower :: "nat \<Rightarrow> nat" where
  "to_lower c = (if 65 \<le> c \<and> c \<le> 90 then c + 32 else c)"

fun starts_with :: "jstring \<Rightarrow> jstring \<Rightarrow> bool" where
  "starts_with [] s = True"
| "starts_with (k # ks) [] = False"
| "starts_with (k # ks) (c # cs) = (k = c \<and> starts_with ks cs)"

fun occurs_in :: "jstring \<Rightarrow> jstring \<Rightarrow> bool" where
  "occurs_in kw [] = (kw = [])"
| "occurs_in kw (c # cs) = (starts_with kw (c # cs) \<or> occurs_in kw cs)"

definition matcher_test :: "jstring list \<Rightarrow> jstring \<Rightarrow> bool" where
  "matcher_test kws t = list_ex (\<lambda>kw. occurs_in kw (map to_lower t)) kws"

definition focusBuckets :: "(jstring \<times> jstring list) list" where
  "focusBuckets =
     [(js ''2-minute Wins'', map js [''call'', ''email'', ''text'', ''pay'', ''tidy'']),
      (js ''Prep & Planning'', map js [''plan'', ''prepare'', ''research'', ''outline'']),
      (js ''Deep Work'', map js [''write'', ''design'', ''build'', ''develop'', ''analyze'']),
      (js ''Personal Care'',
         map js [''cook'', ''exercise'', ''meditate'', ''laundry'', ''clean'', ''rest'', ''self''])]"

record brain_dump_output =
  categories :: "(jstring \<times> jstring list) list"
  focusRecommendation :: jstring
  summary :: jstring
  bd_rawResponse :: "jstring option"
  bd_error :: "jstring option"

text \<open>
  \<^verbatim>\<open>output.categories\<close> is an object whose keys are enumerated in the order of
  their creation: an association list. \<open>push_category\<close> is lines 387 to 390: create
  the bucket when the label has none, then push the text.
\<close>

definition push_category ::
  "jstring \<Rightarrow> jstring \<Rightarrow> (jstring \<times> jstring list) list \<Rightarrow> (jstring \<times> jstring list) list" where
  "push_category lbl t cats =
     (if lbl \<in> set (map fst cats)
      then map (\<lambda>(l, xs). if l = lbl then (l, xs @ [t]) else (l, xs)) cats
      else cats @ [(lbl, [t])])"

text \<open>Lines 385 and 386: the label of the first bucket whose matcher accepts the text.\<close>

definition bucket_label :: "jstring \<Rightarrow> jstring" where
  "bucket_label t =
     (let bucket = find (\<lambda>candidate. matcher_test (snd candidate) t) focusBuckets
      in case bucket of Some b \<Rightarrow> fst b | None \<Rightarrow> (js ''Miscellaneous''))"

text \<open>The body of the \<^verbatim>\<open>forEach\<close> callback, for items that are strings.\<close>

definition categorize_item ::
  "jstring \<Rightarrow> (jstring \<times> jstring list) list \<Rightarrow> (jstring \<times> jstring list) list" where
  "categorize_item item cats =
     (let t = trim item
      in if t = [] then cats
         else push_category (bucket_label t) t cats)"

text \<open>
  \<^verbatim>\<open>fallbackBrainDump\<close>. The sort by descending bucket size is stable, so its
  first element is the earliest created bucket among the largest.
\<close>

definition fallbackBrainDump :: "jstring list \<Rightarrow> brain_dump_output" where
  "fallbackBrainDump items =
     (let cats = fold categorize_item items [];
          sorted_entries = sort_key (\<lambda>entry. - int (length (snd entry))) cats
      in \<lparr>categories = cats,
          focusRecommendation =
            (case sorted_entries of
               [] \<Rightarrow> (js ''Choose one quick win task that takes under 5 minutes.'')
             | mostPopulated # rest \<Rightarrow>
                 js ''Start with one item from '' @ [34] @ fst mostPopulated @ [34]
                   @ js '' today.''),
          summary =
            js ''Organized '' @ show_nat (length items) @ js '' items into ''
              @ show_nat (if length cats = 0 then 1 else length cats) @ js '' categories.'',
          bd_rawResponse = None,
          bd_error = None\<rparr>)"

text \<open>
  What \<^verbatim>\<open>organizeBrainDump\<close> resolves to: the heuristic output (possibly
  annotated), or the object the model's answer parsed to, given with the value its
  \<^verbatim>\<open>rawResponse\<close> property holds after line 444.
\<close>

datatype brain_dump_result = Heuristic brain_dump_output | FromModel jsval jsval

text \<open>\<^verbatim>\<open>Array.isArray(items) ? items : []\<close>\<close>

definition normalized :: "jstring list option \<Rightarrow> jstring list" where
  "normalized items = (case items of None \<Rightarrow> [] | Some xs \<Rightarrow> xs)"

text \<open>
  \<^verbatim>\<open>organizeBrainDump(items, {forceFallback})\<close>; \<open>None\<close> stands for an argument
  that is not an array. Assigning \<^verbatim>\<open>rawResponse\<close> on a parsed primitive throws
  in strict mode, inside the \<^verbatim>\<open>try\<close> block.
\<close>

definition organizeBrainDump ::
  "env \<Rightarrow> jstring list option \<Rightarrow> bool \<Rightarrow> world \<Rightarrow> brain_dump_result outcome \<times> world" where
  "organizeBrainDump h items forceFallback w =
     (let normalizedItems = normalized items;
          w1 = persistState h
            (w\<lparr>state := (state w)
               \<lparr>brainDumpHistory := brainDumpHistory (state w)
                  @ [\<lparr>r_items = normalizedItems, r_timestamp = now_iso h\<rparr>]\<rparr>\<rparr>)
      in if \<not> has_fetch h \<or> forceFallback
         then (Resolves (Heuristic (fallbackBrainDump normalizedItems)), w1)
         else case callOpenAI h of
           Inl msg \<Rightarrow>
             (Resolves (Heuristic ((fallbackBrainDump normalizedItems)\<lparr>bd_error := Some msg\<rparr>)), w1)
         | Inr t \<Rightarrow>
             (let parsed = safeParse h t JNull
              in if \<not> truthy parsed
                 then (Resolves (Heuristic ((fallbackBrainDump normalizedItems)
                        \<lparr>bd_rawResponse := Some t\<rparr>)), w1)
                 else case parsed of
                   JObject kvs \<Rightarrow>
                     (Resolves (FromModel parsed (js_or (get_prop parsed (js ''rawResponse'')) (JString t))), w1)
                 | JArray xs \<Rightarrow>
                     (Resolves (FromModel parsed (js_or (get_prop parsed (js ''rawResponse'')) (JString t))), w1)
                 | primitive \<Rightarrow>
                     (Resolves (Heuristic ((fallbackBrainDump normalizedItems)
                        \<lparr>bd_error := Some (assign_error_message h parsed)\<rparr>)), w1)))"

section \<open>Sequences of API calls\<close>

datatype api_call =
    RecordReminderInteraction interaction_args
  | ResetTaskHistory jstring
  | OrganizeBrainDump "jstring list option" bool

fun exec :: "env \<Rightarrow> api_call \<Rightarrow> world \<Rightarrow> world" where
  "exec h (RecordReminderInteraction args) w = snd (recordReminderInteraction h args w)"
| "exec h (ResetTaskHistory taskId) w = resetTaskHistory h taskId w"
| "exec h (OrganizeBrainDump items forceFallback) w = snd (organizeBrainDump h items forceFallback w)"

text \<open>Calls made one after the other, each in the environment it meets.\<close>

fun run :: "(env \<times> api_call) list \<Rightarrow> world \<Rightarrow> world" where
  "run [] w = w"
| "run (hc # rest) w = run rest (exec (fst hc) (snd hc) w)"

section \<open>Vocabulary of the properties\<close>

text \<open>
  The record stored for a task, and for a task without one the fresh record that its
  first recorded interaction starts from.
\<close>

definition task_of :: "world \<Rightarrow> jstring \<Rightarrow> task_state" where
  "task_of w taskId =
     (case tasks (state w) taskId of None \<Rightarrow> new_task_state | Some ts \<Rightarrow> ts)"

text \<open>A call that passes the check of line 315, with its task and its action.\<close>

definition valid_args :: "interaction_args \<Rightarrow> jstring \<Rightarrow> jstring \<Rightarrow> bool" where
  "valid_args args taskId action =
     (a_taskId args = Some taskId \<and> taskId \<noteq> [] \<and> a_action args = Some action \<and> action \<noteq> [])"

text \<open>The counter rule as the specification words it.\<close>

definition skips_after :: "jstring \<Rightarrow> nat \<Rightarrow> nat" where
  "skips_after action n =
     (if action = (js ''skip'') then n + 1
      else if action = (js ''complete'') \<or> action = (js ''snooze'') then 0
      else n)"

text \<open>The entry a call records.\<close>

definition entry_of :: "env \<Rightarrow> interaction_args \<Rightarrow> interaction_entry" where
  "entry_of h args =
     \<lparr>e_action = the (a_action args),
      e_timestamp = (case a_timestamp args of None \<Rightarrow> now_iso h | Some t \<Rightarrow> t),
      e_context = (if a_context args = JUndefined then JObject [] else a_context args)\<rparr>"

text \<open>The last \<open>n\<close> elements of a list, in their order.\<close>

definition take_last :: "nat \<Rightarrow> 'a list \<Rightarrow> 'a list" where
  "take_last n xs = drop (length xs - n) xs"

text \<open>
  The trigger policy as the specification words it: at least three consecutive skips
  once this action is counted, and at least one hour since the task's last suggestion.
\<close>

definition due :: "env \<Rightarrow> jstring \<Rightarrow> task_state \<Rightarrow> bool" where
  "due h action ts =
     (3 \<le> skips_after action (consecutiveSkips ts)
      \<and> ONE_HOUR \<le> now_ms h - lastSuggestionTimestamp ts)"

text \<open>The argument object \<^verbatim>\<open>{taskId, action}\<close>.\<close>

definition args_for :: "jstring \<Rightarrow> jstring \<Rightarrow> interaction_args" where
  "args_for taskId action =
     \<lparr>a_taskId = Some taskId, a_action = Some action, a_timestamp = None,
      a_context = JUndefined, a_forceFallback = False\<rparr>"

text \<open>
  A host without \<^verbatim>\<open>fetch\<close> whose clock reads \<open>t\<close> milliseconds, for the
  concrete instances below.
\<close>

definition offline_env :: "int \<Rightarrow> env" where
  "offline_env t =
     \<lparr>has_fetch = False, storage_ok = True, api_key = [], now_ms = t,
      now_iso = js ''2023-11-14T22:13:20.000Z'', fetch_result = FetchRejected (js ''Failed to fetch''),
      JSON_parse = (\<lambda>s. None), ToNumber_host = (\<lambda>v. NaN), ToString_host = (\<lambda>v. []),
      assign_error_message = (\<lambda>v. []),
      undefined_read_message = js ''Cannot read properties of undefined (reading 'push')''\<rparr>"





text \<open>
  The interval rule in the specification's words: the maximum of 15 and the rounded
  half of the previous interval, which is 45 when the caller gave none.
\<close>

definition claimed_interval :: "rat option \<Rightarrow> int" where
  "claimed_interval previous =
     max 15 (round ((case previous of None \<Rightarrow> 45 | Some p \<Rightarrow> p) * (1 / 2)))"

text \<open>The interval that the heuristic path recommends for a summary.\<close>

definition heuristic_interval :: "env \<Rightarrow> reminder_summary \<Rightarrow> jsval" where
  "heuristic_interval h sm =
     reminderIntervalMinutes (recommendedAdjustments (fallbackReminderSuggestion h sm))"

text \<open>A summary of three skips whose context is \<open>ctx\<close>.\<close>

definition summary_with :: "jsval \<Rightarrow> reminder_summary" where
  "summary_with ctx =
     \<lparr>sm_taskId = js ''t1'', sm_consecutiveSkips = 3, recentInteractions = [], sm_context = ctx\<rparr>"


text \<open>The items that are not blank, trimmed, in the order given.\<close>

definition non_blank :: "jstring list \<Rightarrow> jstring list" where
  "non_blank items = filter (\<lambda>t. t \<noteq> []) (map trim items)"

text \<open>
  A keyword pattern matches a text, letters compared without regard to case, when one
  of its words is a contiguous part of the text.
\<close>

definition kw_match :: "jstring list \<Rightarrow> jstring \<Rightarrow> bool" where
  "kw_match kws t = (\<exists>kw \<in> set kws. sublist kw (map to_lower t))"

text \<open>The categorizer's rule in the specification's words: the first rule that matches, in the fixed order.\<close>

definition spec_label :: "jstring \<Rightarrow> jstring" where
  "spec_label t =
     (if kw_match (map js [''call'', ''email'', ''text'', ''pay'', ''tidy'']) t
      then js ''2-minute Wins''
      else if kw_match (map js [''plan'', ''prepare'', ''research'', ''outline'']) t
      then js ''Prep & Planning''
      else if kw_match (map js [''write'', ''design'', ''build'', ''develop'', ''analyze'']) t
      then js ''Deep Work''
      else if kw_match
          (map js [''cook'', ''exercise'', ''meditate'', ''laundry'', ''clean'', ''rest'', ''self'']) t
      then js ''Personal Care''
      else js ''Miscellaneous'')"

text \<open>The content of a bucket, empty when there is no such bucket.\<close>

definition bucket :: "(jstring \<times> jstring list) list \<Rightarrow> jstring \<Rightarrow> jstring list" where
  "bucket cats lbl = (case map_of cats lbl of None \<Rightarrow> [] | Some xs \<Rightarrow> xs)"

text \<open>
  The summary as claim C7 words it: the count is that of the items that are not blank.
\<close>

definition claimed_summary :: "jstring list \<Rightarrow> jstring" where
  "claimed_summary items =
     js ''Organized '' @ show_nat (length (non_blank items)) @ js '' items into ''
       @ show_nat (max 1 (length (categories (fallbackBrainDump items)))) @ js '' categories.''"

text \<open>The items of the specification's example.\<close>

definition example_items :: "jstring list" where
  "example_items = [js ''call mom'', js ''write report'', js ''nonsense xyz'']"

text \<open>The number of texts in all buckets.\<close>

definition total_size :: "(jstring \<times> jstring list) list \<Rightarrow> nat" where
  "total_size cats = sum_list (map (\<lambda>entry. length (snd entry)) cats)"

text \<open>The invariant of the categorizer's loop: one bucket per label, none of them empty.\<close>

definition well_formed :: "(jstring \<times> jstring list) list \<Rightarrow> bool" where
  "well_formed cats = (distinct (map fst cats) \<and> (\<forall>entry \<in> set cats. snd entry \<noteq> []))"

text \<open>A host that has \<^verbatim>\<open>fetch\<close> but no API key.\<close>

definition keyless_env :: "int \<Rightarrow> env" where
  "keyless_env t = (offline_env t)\<lparr>has_fetch := True\<rparr>"

text \<open>
  Nothing is stored under the empty task identifier or under the name of an inherited
  member.
\<close>

definition no_reserved_key :: "world \<Rightarrow> bool" where
  "no_reserved_key w =
     (\<forall>k \<in> set ([] # inherited_names).
        tasks (state w) k = None \<and> lastSuggestion (state w) k = None)"

section \<open>Facts about the tracker\<close>

lemma js_inject [simp]: "(js a = js b) = (a = b)"
  by (simp add: js_def inj_map_eq_map inj_on_def)

lemma js_Nil [simp]: "(js a = []) = (a = [])" "([] = js a) = (a = [])"
  by (auto simp add: js_def)

lemma js_inherited [simp]:
  "(js a \<in> set inherited_names) =
     (a \<in> set [''constructor'', ''__defineGetter__'', ''__defineSetter__'', ''hasOwnProperty'',
       ''__lookupGetter__'', ''__lookupSetter__'', ''isPrototypeOf'', ''propertyIsEnumerable'',
       ''toString'', ''valueOf'', ''__proto__'', ''toLocaleString''])"
  unfolding inherited_names_def set_map
  by (rule inj_image_mem_iff) (simp add: inj_on_def)

lemma trackHistory_eq: "trackHistory ts e = ts\<lparr>history := take_last 50 (history ts @ [e])\<rparr>"
  by (simp add: trackHistory_def Let_def take_last_def MAX_HISTORY_def)

lemma persistState_state [simp]: "state (persistState h w) = state w"
  by (simp add: persistState_def)

lemma getTaskState_plain:
  "taskId \<notin> set inherited_names \<Longrightarrow>
   getTaskState taskId (state w) =
     (Some (task_of w taskId), (state w)\<lparr>tasks := (tasks (state w))(taskId \<mapsto> task_of w taskId)\<rparr>)"
  by (cases "tasks (state w) taskId")
    (simp_all add: getTaskState_def obj_lookup_def task_of_def fun_upd_idem)

lemma getTaskState_inherited:
  "taskId \<in> set inherited_names \<Longrightarrow> tasks st taskId = None \<Longrightarrow>
   getTaskState taskId st = (None, st)"
  by (simp add: getTaskState_def obj_lookup_def)

lemma task_of_upd [simp]:
  "task_of (w\<lparr>state := st\<lparr>tasks := m(taskId \<mapsto> ts)\<rparr>\<rparr>) taskId = ts"
  by (simp add: task_of_def)

lemma task_of_persist [simp]: "task_of (persistState h w) taskId = task_of w taskId"
  by (simp add: task_of_def)

lemma rRI_invalid:
  "missing (a_taskId args) \<or> missing (a_action args) \<Longrightarrow>
   recordReminderInteraction h args w =
     (Rejects (Error (js ''recordReminderInteraction requires a taskId and action'')), w)"
  by (simp add: recordReminderInteraction_def)

lemma rRI_inherited:
  "valid_args args taskId action \<Longrightarrow> taskId \<in> set inherited_names \<Longrightarrow>
   tasks (state w) taskId = None \<Longrightarrow>
   recordReminderInteraction h args w = (Rejects (TypeError (undefined_read_message h)), w)"
  by (simp add: recordReminderInteraction_def valid_args_def missing_def Let_def
      getTaskState_inherited)

lemma valid_not_missing:
  "valid_args args taskId action \<Longrightarrow> \<not> missing (a_taskId args) \<and> \<not> missing (a_action args)"
  by (simp add: valid_args_def missing_def)

lemma buildReminderSummary_stamp [simp]:
  "buildReminderSummary taskId (ts\<lparr>lastSuggestionTimestamp := x\<rparr>) c = buildReminderSummary taskId ts c"
  by (simp add: buildReminderSummary_def)

lemmas rRI_unfold = recordReminderInteraction_def Let_def valid_args_def getTaskState_plain
      trackHistory_eq due_def skips_after_def shouldThrottleSuggestion_def entry_of_def not_less

lemma rRI_task:
  assumes "valid_args args taskId action" "taskId \<notin> set inherited_names"
  shows "history (task_of (snd (recordReminderInteraction h args w)) taskId) =
           take_last 50 (history (task_of w taskId) @ [entry_of h args])"
    and "consecutiveSkips (task_of (snd (recordReminderInteraction h args w)) taskId) =
           skips_after action (consecutiveSkips (task_of w taskId))"
    and "lastSuggestionTimestamp (task_of (snd (recordReminderInteraction h args w)) taskId) =
           (if due h action (task_of w taskId) then now_ms h
            else lastSuggestionTimestamp (task_of w taskId))"
  using assms valid_not_missing[OF assms(1)]
  by (simp_all add: rRI_unfold)

lemma rRI_result:
  assumes "valid_args args taskId action" "taskId \<notin> set inherited_names"
  shows "fst (recordReminderInteraction h args w) =
     (if due h action (task_of w taskId)
      then Resolves (Some (generateReminderAdjustments h
             (buildReminderSummary taskId
                (task_of (snd (recordReminderInteraction h args w)) taskId)
                (e_context (entry_of h args)))
             (a_forceFallback args)))
      else Resolves None)"
  using assms valid_not_missing[OF assms(1)]
  by (simp add: rRI_unfold)

lemma rRI_other_task:
  assumes "valid_args args taskId action" "other \<noteq> taskId"
  shows "tasks (state (snd (recordReminderInteraction h args w))) other = tasks (state w) other"
proof (cases "fst (getTaskState taskId (state w))")
  case None
  with assms valid_not_missing[OF assms(1)] show ?thesis
    by (simp add: recordReminderInteraction_def Let_def valid_args_def)
next
  case (Some ts)
  then have "tasks (snd (getTaskState taskId (state w))) other = tasks (state w) other"
    using assms(2)
    by (auto simp add: getTaskState_def split: looked_up.splits)
  with Some assms valid_not_missing[OF assms(1)] show ?thesis
    by (simp add: recordReminderInteraction_def Let_def valid_args_def)
qed

lemma rRI_lastSuggestion:
  assumes "valid_args args taskId action" "taskId \<notin> set inherited_names"
  shows "lastSuggestion (state (snd (recordReminderInteraction h args w))) =
     (if due h action (task_of w taskId)
      then (lastSuggestion (state w))
             (taskId \<mapsto> generateReminderAdjustments h
                (buildReminderSummary taskId
                   (task_of (snd (recordReminderInteraction h args w)) taskId)
                   (e_context (entry_of h args)))
                (a_forceFallback args))
      else lastSuggestion (state w))"
  using assms valid_not_missing[OF assms(1)]
  by (simp add: rRI_unfold)

lemma rRI_lastSuggestion_other:
  assumes "valid_args args taskId action" "other \<noteq> taskId"
  shows "lastSuggestion (state (snd (recordReminderInteraction h args w))) other =
     lastSuggestion (state w) other"
proof (cases "fst (getTaskState taskId (state w))")
  case None
  with assms valid_not_missing[OF assms(1)] show ?thesis
    by (simp add: recordReminderInteraction_def Let_def valid_args_def)
next
  case (Some ts)
  then have "lastSuggestion (snd (getTaskState taskId (state w))) = lastSuggestion (state w)"
    by (auto simp add: getTaskState_def split: looked_up.splits)
  with Some assms valid_not_missing[OF assms(1)] show ?thesis
    by (simp add: recordReminderInteraction_def Let_def valid_args_def)
qed

lemma getTaskState_brainDumpHistory [simp]:
  "brainDumpHistory (snd (getTaskState taskId st)) = brainDumpHistory st"
  by (simp add: getTaskState_def split: looked_up.split)

lemma rRI_brainDumpHistory:
  "brainDumpHistory (state (snd (recordReminderInteraction h args w))) = brainDumpHistory (state w)"
  by (simp add: recordReminderInteraction_def Let_def split: option.split)




lemma oBD_snd:
  "snd (organizeBrainDump h items ff w) =
     persistState h
       (w\<lparr>state := (state w)
          \<lparr>brainDumpHistory := brainDumpHistory (state w)
             @ [\<lparr>r_items = normalized items, r_timestamp = now_iso h\<rparr>]\<rparr>\<rparr>)"
  unfolding organizeBrainDump_def Let_def
  by (simp split: sum.split jsval.split)



lemma rRI_valid_or_unchanged:
  "snd (recordReminderInteraction h args w) = w
   \<or> (\<exists>taskId action. valid_args args taskId action)"
  by (cases "a_taskId args"; cases "a_action args")
    (auto simp add: recordReminderInteraction_def valid_args_def missing_def)

lemma no_reserved_key_initial: "no_reserved_key initial_world"
  by (simp add: no_reserved_key_def initial_world_def initial_state_def)

lemma no_reserved_key_rRI:
  assumes n: "no_reserved_key w"
  shows "no_reserved_key (snd (recordReminderInteraction h args w))"
proof -
  from rRI_valid_or_unchanged[of h args w] show ?thesis
  proof
    assume "snd (recordReminderInteraction h args w) = w"
    with n show ?thesis by simp
  next
    assume "\<exists>taskId action. valid_args args taskId action"
    then obtain taskId action where v: "valid_args args taskId action" by blast
    show ?thesis
    proof (cases "taskId \<in> set inherited_names")
      case True
      with n have "tasks (state w) taskId = None" by (simp add: no_reserved_key_def)
      from rRI_inherited[OF v True this] n show ?thesis by simp
    next
      case False
      from v have ne: "taskId \<noteq> []" by (simp add: valid_args_def)
      have "\<And>k. k \<in> set ([] # inherited_names) \<Longrightarrow> k \<noteq> taskId"
        using False ne by auto
      with n show ?thesis
        unfolding no_reserved_key_def
        by (simp add: rRI_other_task[OF v] rRI_lastSuggestion_other[OF v])
    qed
  qed
qed

lemma no_reserved_key_exec: "no_reserved_key w \<Longrightarrow> no_reserved_key (exec h c w)"
proof (cases c)
  case (RecordReminderInteraction args)
  assume "no_reserved_key w"
  then show ?thesis
    by (simp add: RecordReminderInteraction no_reserved_key_rRI)
next
  case (ResetTaskHistory t)
  assume "no_reserved_key w"
  then show ?thesis
    by (simp add: ResetTaskHistory no_reserved_key_def resetTaskHistory_def)
next
  case (OrganizeBrainDump items ff)
  assume "no_reserved_key w"
  then show ?thesis
    by (simp add: OrganizeBrainDump no_reserved_key_def oBD_snd)
qed

lemma no_reserved_key_run: "no_reserved_key w \<Longrightarrow> no_reserved_key (run calls w)"
  by (induction calls arbitrary: w) (simp_all add: no_reserved_key_exec)









lemma valid_args_for [simp]: "valid_args (args_for t a) t' a' = (t' = t \<and> a' = a \<and> t \<noteq> [] \<and> a \<noteq> [])"
  by (auto simp add: valid_args_def args_for_def)

lemma task_of_initial [simp]: "task_of initial_world t = new_task_state"
  by (simp add: task_of_def initial_world_def initial_state_def)

lemma tasks_initial [simp]: "tasks (state initial_world) t = None"
  by (simp add: initial_world_def initial_state_def)

lemma offline_now [simp]: "now_ms (offline_env t) = t"
  by (simp add: offline_env_def)

lemma t1_facts:
  "valid_args (args_for (js ''t1'') a) (js ''t1'') a = (a \<noteq> [])"
  "js ''t1'' \<notin> set inherited_names"
  by auto

lemmas rRI_eval = rRI_task[OF _ t1_facts(2)] rRI_result[OF _ t1_facts(2)]
  rRI_lastSuggestion[OF _ t1_facts(2)]


lemma heuristic_interval_eq:
  "heuristic_interval h sm =
     JNumber (Math_max (Fin 15) (Math_round (times_half
        (ToNumber h (js_or (get_prop (sm_context sm) (js ''reminderIntervalMinutes''))
           (JNumber (Fin 45)))))))"
  by (simp add: heuristic_interval_def fallbackReminderSuggestion_def)

lemma Math_max_15_not_less: "\<not> js_less (Math_max (Fin 15) n) (Fin 15)"
  by (cases n) simp_all

section \<open>Facts about the completion paths and the state\<close>

lemma gRA_error:
  "has_fetch h \<Longrightarrow> \<not> ff \<Longrightarrow> callOpenAI h = Inl msg \<Longrightarrow>
   generateReminderAdjustments h sm ff = (fallbackReminderSuggestion h sm)\<lparr>s_error := Some msg\<rparr>"
  by (simp add: generateReminderAdjustments_def)

lemma gRA_raw:
  "has_fetch h \<Longrightarrow> \<not> ff \<Longrightarrow> callOpenAI h = Inr t \<Longrightarrow> JSON_parse h t = None \<Longrightarrow>
   generateReminderAdjustments h sm ff =
     (fallbackReminderSuggestion h sm)\<lparr>s_rawResponse := Some (JString t)\<rparr>"
  by (simp add: generateReminderAdjustments_def safeParse_def)

lemma oBD_error:
  "has_fetch h \<Longrightarrow> \<not> ff \<Longrightarrow> callOpenAI h = Inl msg \<Longrightarrow>
   fst (organizeBrainDump h items ff w) =
     Resolves (Heuristic ((fallbackBrainDump (normalized items))\<lparr>bd_error := Some msg\<rparr>))"
  by (simp add: organizeBrainDump_def Let_def)

lemma oBD_raw:
  "has_fetch h \<Longrightarrow> \<not> ff \<Longrightarrow> callOpenAI h = Inr t \<Longrightarrow> JSON_parse h t = None \<Longrightarrow>
   fst (organizeBrainDump h items ff w) =
     Resolves (Heuristic ((fallbackBrainDump (normalized items))\<lparr>bd_rawResponse := Some t\<rparr>))"
  by (simp add: organizeBrainDump_def Let_def safeParse_def)

lemma rRI_error_iff:
  assumes "\<forall>t \<in> set inherited_names. a_taskId args \<noteq> Some t"
  shows "(\<exists>e. fst (recordReminderInteraction h args w) = Rejects e) =
     (missing (a_taskId args) \<or> missing (a_action args))"
proof (cases "missing (a_taskId args) \<or> missing (a_action args)")
  case True
  then show ?thesis by (simp add: rRI_invalid)
next
  case False
  then obtain t a where v: "valid_args args t a"
    by (auto simp add: valid_args_def missing_def split: option.splits)
  with assms have p: "t \<notin> set inherited_names"
    by (auto simp add: valid_args_def)
  from False show ?thesis
    by (simp add: rRI_result[OF v p])
qed

lemma rRI_never_throws: "fst (recordReminderInteraction h args w) \<noteq> Throws e"
  by (simp add: recordReminderInteraction_def Let_def split: option.split)

lemma oBD_resolves: "\<exists>res. fst (organizeBrainDump h items ff w) = Resolves res"
  unfolding organizeBrainDump_def Let_def
  by (simp split: sum.split jsval.split)

lemma callOpenAI_missing_key: "api_key h = [] \<Longrightarrow> callOpenAI h = Inl (js ''Missing OpenAI API key'')"
  by (simp add: callOpenAI_def)

lemma callOpenAI_rejected:
  "api_key h \<noteq> [] \<Longrightarrow> fetch_result h = FetchRejected msg \<Longrightarrow> callOpenAI h = Inl msg"
  by (simp add: callOpenAI_def)

lemma callOpenAI_not_ok:
  "api_key h \<noteq> [] \<Longrightarrow> fetch_result h = FetchResponse r \<Longrightarrow> \<not> ok r \<Longrightarrow>
   \<exists>m. callOpenAI h = Inl m"
  by (simp add: callOpenAI_def Let_def)

lemma callOpenAI_not_ok_generic:
  "api_key h \<noteq> [] \<Longrightarrow> fetch_result h = FetchResponse r \<Longrightarrow> \<not> ok r \<Longrightarrow> json_body r = Inl e \<Longrightarrow>
   callOpenAI h = Inl ((js ''OpenAI request failed with status '') @ show_nat (status r))"
  by (simp add: callOpenAI_def Let_def)

lemma callOpenAI_malformed:
  "api_key h \<noteq> [] \<Longrightarrow> fetch_result h = FetchResponse r \<Longrightarrow> ok r \<Longrightarrow> json_body r = Inr payload \<Longrightarrow>
   (\<forall>s. output_text payload = JString s \<longrightarrow> trim s = []) \<Longrightarrow>
   callOpenAI h = Inl (js ''OpenAI returned an unexpected response format'')"
  by (simp add: callOpenAI_def split: jsval.split)

lemma keyless_fields [simp]:
  "has_fetch (keyless_env t)" "api_key (keyless_env t) = []" "now_ms (keyless_env t) = t"
  by (simp_all add: keyless_env_def offline_env_def)

lemma reset_brainDumpHistory:
  "brainDumpHistory (state (resetTaskHistory h taskId w)) = brainDumpHistory (state w)"
  by (simp add: resetTaskHistory_def)

lemma exec_brainDumpHistory:
  "prefix (brainDumpHistory (state w)) (brainDumpHistory (state (exec h c w)))"
  by (cases c) (simp_all add: rRI_brainDumpHistory reset_brainDumpHistory oBD_snd)

lemma run_brainDumpHistory:
  "prefix (brainDumpHistory (state w)) (brainDumpHistory (state (run calls w)))"
proof (induction calls arbitrary: w)
  case Nil
  then show ?case by simp
next
  case (Cons c calls)
  have "prefix (brainDumpHistory (state w)) (brainDumpHistory (state (exec (fst c) (snd c) w)))"
    by (rule exec_brainDumpHistory)
  also have "prefix \<dots> (brainDumpHistory (state (run calls (exec (fst c) (snd c) w))))"
    by (rule Cons.IH)
  finally show ?case by simp
qed

lemma three_skips_suggestion:
  "lastSuggestion (state (run [(offline_env 1700000000000, RecordReminderInteraction (args_for (js ''t1'') (js ''skip''))),
        (offline_env 1700000060000, RecordReminderInteraction (args_for (js ''t1'') (js ''skip''))),
        (offline_env 1700000120000, RecordReminderInteraction (args_for (js ''t1'') (js ''skip'')))]
      initial_world)) (js ''t1'') \<noteq> None"
  by (simp add: rRI_eval due_def skips_after_def new_task_state_def ONE_HOUR_def)

section \<open>Facts about the categorizer\<close>

lemma starts_with_prefix: "starts_with k s = prefix k s"
  by (induction k s rule: starts_with.induct) simp_all

lemma occurs_in_sublist: "occurs_in k s = sublist k s"
  by (induction s) (simp_all add: starts_with_prefix sublist_Cons_right)

lemma matcher_test_kw_match: "matcher_test kws t = kw_match kws t"
  by (simp add: matcher_test_def kw_match_def list_ex_iff occurs_in_sublist)

lemma bucket_label_spec: "bucket_label t = spec_label t"
  by (simp add: bucket_label_def spec_label_def focusBuckets_def matcher_test_kw_match)

lemma keys_push_category:
  "map fst (push_category l t cats) =
     (if l \<in> set (map fst cats) then map fst cats else map fst cats @ [l])"
  by (induction cats) (auto simp add: push_category_def split: if_splits)

lemma bucket_push_category:
  "bucket (push_category l t cats) l' =
     (if l' = l then bucket cats l @ [t] else bucket cats l')"
proof (cases "l \<in> set (map fst cats)")
  case False
  then have "map_of cats l = None" by (simp add: map_of_eq_None_iff)
  with False show ?thesis
    by (auto simp add: push_category_def bucket_def map_add_def split: option.splits)
next
  case True
  have "map_of (map (\<lambda>(k, xs). if k = l then (k, xs @ [t]) else (k, xs)) cats) l' =
        (if l' = l then map_option (\<lambda>xs. xs @ [t]) (map_of cats l) else map_of cats l')"
    by (induction cats) auto
  moreover from True obtain xs where "map_of cats l = Some xs"
    by (cases "map_of cats l") (auto simp add: map_of_eq_None_iff)
  ultimately show ?thesis using True
    by (simp add: push_category_def bucket_def)
qed

lemma well_formed_push: "well_formed cats \<Longrightarrow> well_formed (push_category l t cats)"
  unfolding well_formed_def
  by (auto simp add: keys_push_category) (auto simp add: push_category_def split: if_splits)

lemma total_size_map:
  "distinct (map fst cats) \<Longrightarrow>
   total_size (map (\<lambda>(k, xs). if k = l then (k, xs @ [t]) else (k, xs)) cats) =
     total_size cats + (if l \<in> fst ` set cats then 1 else 0)"
  by (induction cats) (force simp add: total_size_def)+

lemma total_size_push:
  "distinct (map fst cats) \<Longrightarrow> total_size (push_category l t cats) = total_size cats + 1"
proof (cases "l \<in> set (map fst cats)")
  case True
  assume "distinct (map fst cats)"
  from total_size_map[OF this, of l t] True show ?thesis
    by (simp add: push_category_def)
next
  case False
  then show ?thesis
    by (simp add: push_category_def total_size_def)
qed

lemma set_keys_push_category:
  "fst ` set (push_category l t cats) = insert l (fst ` set cats)"
  using arg_cong[OF keys_push_category[of l t cats], of set]
  by (auto split: if_splits)

lemma fold_keys:
  "fst ` set (fold categorize_item items cats) =
     fst ` set cats \<union> spec_label ` set (non_blank items)"
proof (induction items arbitrary: cats)
  case Nil
  then show ?case by (simp add: non_blank_def)
next
  case (Cons i items)
  show ?case
  proof (cases "trim i = []")
    case True
    then show ?thesis
      using Cons.IH[of cats] by (simp add: categorize_item_def non_blank_def)
  next
    case False
    then show ?thesis
      using Cons.IH[of "push_category (bucket_label (trim i)) (trim i) cats"]
      by (simp add: categorize_item_def non_blank_def Let_def set_keys_push_category
          bucket_label_spec)
  qed
qed

lemma fold_well_formed:
  "well_formed cats \<Longrightarrow> well_formed (fold categorize_item items cats)"
  by (induction items arbitrary: cats)
    (simp_all add: categorize_item_def Let_def well_formed_push)

lemma fold_bucket:
  "bucket (fold categorize_item items cats) lbl =
     bucket cats lbl @ filter (\<lambda>t. spec_label t = lbl) (non_blank items)"
  by (induction items arbitrary: cats)
    (auto simp add: categorize_item_def Let_def non_blank_def bucket_push_category bucket_label_spec)

lemma fold_total_size:
  "well_formed cats \<Longrightarrow>
   total_size (fold categorize_item items cats) = total_size cats + length (non_blank items)"
proof (induction items arbitrary: cats)
  case Nil
  then show ?case by (simp add: non_blank_def)
next
  case (Cons i items)
  show ?case
  proof (cases "trim i = []")
    case True
    with Cons show ?thesis by (simp add: categorize_item_def non_blank_def)
  next
    case False
    from Cons.prems have "well_formed (push_category (bucket_label (trim i)) (trim i) cats)"
      by (rule well_formed_push)
    from Cons.IH[OF this] Cons.prems False show ?thesis
      by (simp add: categorize_item_def Let_def non_blank_def total_size_push well_formed_def)
  qed
qed

lemma bucket_Nil: "bucket [] lbl = []"
  by (simp add: bucket_def)

lemma categories_fallback: "categories (fallbackBrainDump items) = fold categorize_item items []"
  by (simp add: fallbackBrainDump_def Let_def)

lemma well_formed_categories: "well_formed (categories (fallbackBrainDump items))"
  unfolding categories_fallback
  by (rule fold_well_formed) (simp add: well_formed_def)

lemma keys_categories:
  "fst ` set (categories (fallbackBrainDump items)) = spec_label ` set (non_blank items)"
  by (simp add: categories_fallback fold_keys)

lemma length_categories:
  "length (categories (fallbackBrainDump items)) = card (spec_label ` set (non_blank items))"
proof -
  have "distinct (map fst (categories (fallbackBrainDump items)))"
    using well_formed_categories by (simp add: well_formed_def)
  then have "card (set (map fst (categories (fallbackBrainDump items)))) =
      length (map fst (categories (fallbackBrainDump items)))"
    by (rule distinct_card)
  then show ?thesis by (simp add: keys_categories)
qed

lemma map_of_categories:
  "map_of (categories (fallbackBrainDump items)) lbl =
     (let xs = filter (\<lambda>t. spec_label t = lbl) (non_blank items)
      in if xs = [] then None else Some xs)"
proof (cases "lbl \<in> spec_label ` set (non_blank items)")
  case True
  then have ne: "filter (\<lambda>t. spec_label t = lbl) (non_blank items) \<noteq> []"
    by (auto simp add: filter_empty_conv)
  from True have "lbl \<in> set (map fst (categories (fallbackBrainDump items)))"
    by (simp add: keys_categories)
  then obtain xs where s: "map_of (categories (fallbackBrainDump items)) lbl = Some xs"
    by (cases "map_of (categories (fallbackBrainDump items)) lbl")
      (auto simp add: map_of_eq_None_iff)
  then have "bucket (categories (fallbackBrainDump items)) lbl = xs"
    by (simp add: bucket_def)
  moreover have "bucket (categories (fallbackBrainDump items)) lbl =
      filter (\<lambda>t. spec_label t = lbl) (non_blank items)"
    by (simp add: categories_fallback fold_bucket bucket_Nil)
  ultimately have "xs = filter (\<lambda>t. spec_label t = lbl) (non_blank items)"
    by simp
  with s ne show ?thesis by (simp add: Let_def)
next
  case False
  then have e: "filter (\<lambda>t. spec_label t = lbl) (non_blank items) = []"
    by (auto simp add: filter_empty_conv)
  from False have "lbl \<notin> set (map fst (categories (fallbackBrainDump items)))"
    by (simp add: keys_categories)
  then have "map_of (categories (fallbackBrainDump items)) lbl = None"
    by (simp add: map_of_eq_None_iff)
  with e show ?thesis by (simp add: Let_def)
qed

lemma js_eval: "js [] = []" "js (c # cs) = of_char c # js cs"
  by (simp_all add: js_def)

lemma trim_examples:
  "trim (js ''call mom'') = js ''call mom''"
  "trim (js ''write report'') = js ''write report''"
  "trim (js ''nonsense xyz'') = js ''nonsense xyz''"
  "trim (js ''   '') = []"
  "trim [160] = []"
  by (simp_all add: trim_def js_eval is_space_def)

lemma label_examples:
  "bucket_label (js ''call mom'') = js ''2-minute Wins''"
  "bucket_label (js ''write report'') = js ''Deep Work''"
  "bucket_label (js ''nonsense xyz'') = js ''Miscellaneous''"
  by (simp_all add: bucket_label_def focusBuckets_def matcher_test_def js_eval to_lower_def)

lemma show_nat_examples:
  "show_nat 1 = js ''1''" "show_nat 2 = js ''2''" "show_nat 3 = js ''3''"
  "show_nat (Suc 0) = js ''1''" "show_nat (Suc (Suc 0)) = js ''2''"
  by (simp_all add: show_nat.simps js_eval)

lemma js_append: "js a @ js b = js (a @ b)"
  by (simp add: js_def)

lemma example_categories:
  "categories (fallbackBrainDump example_items) =
     [(js ''2-minute Wins'', [js ''call mom'']), (js ''Deep Work'', [js ''write report'']),
      (js ''Miscellaneous'', [js ''nonsense xyz''])]"
  by (simp add: categories_fallback example_items_def categorize_item_def trim_examples
      label_examples push_category_def)

lemma example_focus:
  "focusRecommendation (fallbackBrainDump example_items) =
     js ''Start with one item from '' @ [34] @ js ''2-minute Wins'' @ [34] @ js '' today.''"
proof -
  have "fold categorize_item example_items [] =
     [(js ''2-minute Wins'', [js ''call mom'']), (js ''Deep Work'', [js ''write report'']),
      (js ''Miscellaneous'', [js ''nonsense xyz''])]"
    using example_categories by (simp only: categories_fallback)
  then show ?thesis
    by (simp add: fallbackBrainDump_def Let_def sort_key_def)
qed

lemma texts_categories:
  "set (concat (map snd (categories (fallbackBrainDump items)))) = set (non_blank items)"
proof (intro set_eqI iffI)
  fix t
  assume "t \<in> set (concat (map snd (categories (fallbackBrainDump items))))"
  then obtain l xs where e: "(l, xs) \<in> set (categories (fallbackBrainDump items))" and t: "t \<in> set xs"
    by auto
  have "distinct (map fst (categories (fallbackBrainDump items)))"
    using well_formed_categories by (simp add: well_formed_def)
  with e have "map_of (categories (fallbackBrainDump items)) l = Some xs"
    by simp
  then have "xs = filter (\<lambda>t. spec_label t = l) (non_blank items)"
    by (simp add: map_of_categories Let_def split: if_splits)
  with t show "t \<in> set (non_blank items)" by simp
next
  fix t
  assume t: "t \<in> set (non_blank items)"
  then have "filter (\<lambda>u. spec_label u = spec_label t) (non_blank items) \<noteq> []"
    by (auto simp add: filter_empty_conv)
  then have "map_of (categories (fallbackBrainDump items)) (spec_label t) =
      Some (filter (\<lambda>u. spec_label u = spec_label t) (non_blank items))"
    by (simp add: map_of_categories Let_def)
  then have "(spec_label t, filter (\<lambda>u. spec_label u = spec_label t) (non_blank items))
      \<in> set (categories (fallbackBrainDump items))"
    by (rule map_of_SomeD)
  moreover have "t \<in> set (filter (\<lambda>u. spec_label u = spec_label t) (non_blank items))"
    using t by simp
  ultimately show "t \<in> set (concat (map snd (categories (fallbackBrainDump items))))"
    by force
qed

lemma summary_fallback:
  "summary (fallbackBrainDump items) =
     js ''Organized '' @ show_nat (length items) @ js '' items into ''
       @ show_nat (max 1 (length (categories (fallbackBrainDump items)))) @ js '' categories.''"
proof -
  have m: "(if n = 0 then 1 else n) = max 1 n" for n :: nat
    by (simp add: max_def)
  show ?thesis
    unfolding fallbackBrainDump_def Let_def m by simp
qed

lemma example_summary:
  "summary (fallbackBrainDump example_items) = js ''Organized 3 items into 3 categories.''"
proof -
  have "length (categories (fallbackBrainDump example_items)) = 3"
    by (simp add: example_categories)
  moreover have "length example_items = 3"
    by (simp add: example_items_def)
  ultimately show ?thesis
    by (simp add: summary_fallback show_nat_examples js_append)
qed

lemma example_deep_work:
  "filter (\<lambda>t. spec_label t = js ''Deep Work'') (non_blank example_items) = [js ''write report'']"
  by (simp add: non_blank_def example_items_def trim_examples bucket_label_spec[symmetric]
      label_examples)

lemma blank_example:
  "non_blank [js ''   '', js ''call mom''] = [js ''call mom'']"
  "non_blank [[160], js ''call mom''] = [js ''call mom'']"
  by (simp_all add: non_blank_def trim_examples)

lemma blank_categories:
  "categories (fallbackBrainDump [js ''   '', js ''call mom'']) = [(js ''2-minute Wins'', [js ''call mom''])]"
  "categories (fallbackBrainDump [[160], js ''call mom'']) = [(js ''2-minute Wins'', [js ''call mom''])]"
  by (simp_all add: categories_fallback categorize_item_def trim_examples label_examples
      push_category_def)

section \<open>The claims\<close>

subsection \<open>Trigger policy\<close>

text \<open>
  Claim C1, as the code has it. For every call of \<^verbatim>\<open>recordReminderInteraction\<close>
  with a non-empty task identifier and action, the identifier not being the name of
  an inherited member, the call returns a suggestion exactly when, once this
  interaction is counted, the task has at least three consecutive skips and the clock
  is at least one hour past the task's \<^verbatim>\<open>lastSuggestionTimestamp\<close>; otherwise it
  returns \<^verbatim>\<open>null\<close>. Three skips in a row on a task whose counter was 0 yield a
  suggestion on the third provided the clock is then at least one hour past the task's
  \<^verbatim>\<open>lastSuggestionTimestamp\<close>, and a fourth skip less than one hour after that
  suggestion yields \<^verbatim>\<open>null\<close>. The time stamp 0 of a task that never had a
  suggestion is compared like any other: the throttle is closed for it exactly while
  the clock reads less than one hour.
\<close>

theorem suggestion_trigger:
  "(valid_args args taskId action \<and> taskId \<notin> set inherited_names \<longrightarrow>
      ((\<exists>s. fst (recordReminderInteraction h args w) = Resolves (Some s)) =
         (3 \<le> consecutiveSkips (task_of (snd (recordReminderInteraction h args w)) taskId)
          \<and> ONE_HOUR \<le> now_ms h - lastSuggestionTimestamp (task_of w taskId)))
      \<and> ((\<nexists>s. fst (recordReminderInteraction h args w) = Resolves (Some s)) =
           (fst (recordReminderInteraction h args w) = Resolves None)))
   \<and> (valid_args a_first taskId (js ''skip'') \<and> valid_args a_second taskId (js ''skip'')
        \<and> valid_args a_third taskId (js ''skip'') \<and> valid_args a_fourth taskId (js ''skip'')
        \<and> taskId \<notin> set inherited_names
        \<and> consecutiveSkips (task_of w taskId) = 0
        \<and> ONE_HOUR \<le> now_ms h_third - lastSuggestionTimestamp (task_of w taskId) \<longrightarrow>
      (let w1 = snd (recordReminderInteraction h_first a_first w);
           w2 = snd (recordReminderInteraction h_second a_second w1);
           r3 = recordReminderInteraction h_third a_third w2;
           r4 = recordReminderInteraction h_fourth a_fourth (snd r3)
       in (\<exists>s. fst r3 = Resolves (Some s))
          \<and> (now_ms h_fourth - now_ms h_third < ONE_HOUR \<longrightarrow> fst r4 = Resolves None)))
   \<and> (lastSuggestionTimestamp ts = 0 \<longrightarrow>
        shouldThrottleSuggestion ts (now_ms h) = (now_ms h < ONE_HOUR))"
proof (intro conjI impI)
  assume "valid_args args taskId action \<and> taskId \<notin> set inherited_names"
  then have v: "valid_args args taskId action" and p: "taskId \<notin> set inherited_names"
    by simp_all
  show "(\<exists>s. fst (recordReminderInteraction h args w) = Resolves (Some s)) =
         (3 \<le> consecutiveSkips (task_of (snd (recordReminderInteraction h args w)) taskId)
          \<and> ONE_HOUR \<le> now_ms h - lastSuggestionTimestamp (task_of w taskId))"
    by (simp add: rRI_result[OF v p] rRI_task(2)[OF v p] due_def)
  show "(\<nexists>s. fst (recordReminderInteraction h args w) = Resolves (Some s)) =
           (fst (recordReminderInteraction h args w) = Resolves None)"
    by (simp add: rRI_result[OF v p])
next
  assume a: "valid_args a_first taskId (js ''skip'') \<and> valid_args a_second taskId (js ''skip'')
        \<and> valid_args a_third taskId (js ''skip'') \<and> valid_args a_fourth taskId (js ''skip'')
        \<and> taskId \<notin> set inherited_names
        \<and> consecutiveSkips (task_of w taskId) = 0
        \<and> ONE_HOUR \<le> now_ms h_third - lastSuggestionTimestamp (task_of w taskId)"
  define w1 where "w1 = snd (recordReminderInteraction h_first a_first w)"
  define w2 where "w2 = snd (recordReminderInteraction h_second a_second w1)"
  define w3 where "w3 = snd (recordReminderInteraction h_third a_third w2)"
  from a have v1: "valid_args a_first taskId (js ''skip'')" and v2: "valid_args a_second taskId (js ''skip'')"
    and v3: "valid_args a_third taskId (js ''skip'')" and v4: "valid_args a_fourth taskId (js ''skip'')"
    and p: "taskId \<notin> set inherited_names"
    and z: "consecutiveSkips (task_of w taskId) = 0"
    and o: "ONE_HOUR \<le> now_ms h_third - lastSuggestionTimestamp (task_of w taskId)"
    by simp_all
  have c1: "consecutiveSkips (task_of w1 taskId) = 1"
    and l1: "lastSuggestionTimestamp (task_of w1 taskId) = lastSuggestionTimestamp (task_of w taskId)"
    unfolding w1_def by (simp_all add: rRI_task[OF v1 p] z due_def skips_after_def)
  have c2: "consecutiveSkips (task_of w2 taskId) = 2"
    and l2: "lastSuggestionTimestamp (task_of w2 taskId) = lastSuggestionTimestamp (task_of w taskId)"
    unfolding w2_def by (simp_all add: rRI_task[OF v2 p] c1 l1 due_def skips_after_def)
  have d3: "due h_third (js ''skip'') (task_of w2 taskId)"
    by (simp add: due_def skips_after_def c2 l2 o)
  have r3: "\<exists>s. fst (recordReminderInteraction h_third a_third w2) = Resolves (Some s)"
    by (simp add: rRI_result[OF v3 p] d3)
  have l3: "lastSuggestionTimestamp (task_of w3 taskId) = now_ms h_third"
    unfolding w3_def by (simp add: rRI_task[OF v3 p] d3)
  have r4: "now_ms h_fourth - now_ms h_third < ONE_HOUR \<longrightarrow> fst (recordReminderInteraction h_fourth a_fourth w3) = Resolves None"
    by (simp add: rRI_result[OF v4 p] due_def l3)
  show "let w1 = snd (recordReminderInteraction h_first a_first w);
           w2 = snd (recordReminderInteraction h_second a_second w1);
           r3 = recordReminderInteraction h_third a_third w2;
           r4 = recordReminderInteraction h_fourth a_fourth (snd r3)
       in (\<exists>s. fst r3 = Resolves (Some s))
          \<and> (now_ms h_fourth - now_ms h_third < ONE_HOUR \<longrightarrow> fst r4 = Resolves None)"
    using r3 r4 by (simp add: Let_def w1_def w2_def w3_def)
next
  assume "lastSuggestionTimestamp ts = 0"
  then show "shouldThrottleSuggestion ts (now_ms h) = (now_ms h < ONE_HOUR)"
    by (simp add: shouldThrottleSuggestion_def)
qed

theorem suggestion_trigger_witness:
  "valid_args (args_for (js ''t1'') (js ''skip'')) (js ''t1'') (js ''skip'')
   \<and> js ''t1'' \<notin> set inherited_names
   \<and> consecutiveSkips (task_of initial_world (js ''t1'')) = 0
   \<and> ONE_HOUR \<le> now_ms (offline_env 1700000120000)
        - lastSuggestionTimestamp (task_of initial_world (js ''t1''))
   \<and> (let w1 = snd (recordReminderInteraction (offline_env 1700000000000)
                  (args_for (js ''t1'') (js ''skip'')) initial_world);
           w2 = snd (recordReminderInteraction (offline_env 1700000060000)
                  (args_for (js ''t1'') (js ''skip'')) w1);
           r3 = recordReminderInteraction (offline_env 1700000120000)
                  (args_for (js ''t1'') (js ''skip'')) w2;
           r4 = recordReminderInteraction (offline_env 1700000180000)
                  (args_for (js ''t1'') (js ''skip'')) (snd r3)
       in (\<exists>s. fst r3 = Resolves (Some s)) \<and> fst r4 = Resolves None)"
  using suggestion_trigger[where taskId = "js ''t1''" and w = initial_world
      and a_first = "args_for (js ''t1'') (js ''skip'')" and a_second = "args_for (js ''t1'') (js ''skip'')"
      and a_third = "args_for (js ''t1'') (js ''skip'')" and a_fourth = "args_for (js ''t1'') (js ''skip'')"
      and h_first = "offline_env 1700000000000" and h_second = "offline_env 1700000060000"
      and h_third = "offline_env 1700000120000" and h_fourth = "offline_env 1700000180000"]
  by (simp add: new_task_state_def ONE_HOUR_def Let_def)

text \<open>
  The sentence of C1 about three skips in a row does not hold of every task: a task
  that was given a suggestion, then completed, then skipped three times, all within
  one hour, gets \<^verbatim>\<open>null\<close> on the third of these skips, because the throttle is
  still closed. Nor does the time stamp 0 keep the throttle from blocking a first
  suggestion: on a clock that reads three minutes the third skip of a new task gets
  \<^verbatim>\<open>null\<close>. And the call with the task identifier \<^verbatim>\<open>constructor\<close> returns
  neither a suggestion nor \<^verbatim>\<open>null\<close>: its promise is rejected.
\<close>

theorem third_skip_throttled:
  "(let skip = RecordReminderInteraction (args_for (js ''t1'') (js ''skip''));
        w = run [(offline_env 1700000000000, skip),
                 (offline_env 1700000060000, skip),
                 (offline_env 1700000120000, skip),
                 (offline_env 1700000180000,
                    RecordReminderInteraction (args_for (js ''t1'') (js ''complete''))),
                 (offline_env 1700000240000, skip),
                 (offline_env 1700000300000, skip)] initial_world
    in consecutiveSkips (task_of w (js ''t1'')) = 2
       \<and> lastSuggestionTimestamp (task_of w (js ''t1'')) = 1700000120000
       \<and> fst (recordReminderInteraction (offline_env 1700000360000)
            (args_for (js ''t1'') (js ''skip'')) w) = Resolves None)
   \<and> (let skip = RecordReminderInteraction (args_for (js ''t1'') (js ''skip''));
          w = run [(offline_env 60000, skip), (offline_env 120000, skip)] initial_world
      in consecutiveSkips (task_of w (js ''t1'')) = 2
         \<and> lastSuggestionTimestamp (task_of w (js ''t1'')) = 0
         \<and> fst (recordReminderInteraction (offline_env 180000)
              (args_for (js ''t1'') (js ''skip'')) w) = Resolves None)
   \<and> fst (recordReminderInteraction (offline_env 1700000000000)
        (args_for (js ''constructor'') (js ''skip'')) initial_world) =
      Rejects (TypeError (undefined_read_message (offline_env 1700000000000)))"
  by (simp add: Let_def rRI_eval rRI_inherited due_def skips_after_def new_task_state_def
      ONE_HOUR_def)

subsection \<open>Consecutive skip counter\<close>

text \<open>
  Claim C2. A call of \<^verbatim>\<open>recordReminderInteraction\<close> on a task whose counter
  of consecutive skips is \<open>n\<close> (0 for a task without a record) leaves it at
  \<open>n + 1\<close> for the action \<^verbatim>\<open>skip\<close>, at 0 for \<^verbatim>\<open>complete\<close> and
  \<^verbatim>\<open>snooze\<close>, and at \<open>n\<close> for every other action, whenever the task
  identifier is not the name of an inherited member. For the identifier
  \<^verbatim>\<open>constructor\<close> the rule fails: the first skip of that task is rejected with a
  TypeError and leaves the state as it was, so that the task's counter is still 0.
\<close>

theorem counter_update:
  "(valid_args args taskId action \<and> taskId \<notin> set inherited_names \<longrightarrow>
     consecutiveSkips (task_of (snd (recordReminderInteraction h args w)) taskId) =
       (let n = consecutiveSkips (task_of w taskId)
        in if action = js ''skip'' then n + 1
           else if action = js ''complete'' \<or> action = js ''snooze'' then 0
           else n))
   \<and> recordReminderInteraction h (args_for (js ''constructor'') (js ''skip'')) initial_world =
       (Rejects (TypeError (undefined_read_message h)), initial_world)
   \<and> consecutiveSkips (task_of (snd (recordReminderInteraction h
         (args_for (js ''constructor'') (js ''skip'')) initial_world)) (js ''constructor'')) = 0"
proof (intro conjI impI)
  assume "valid_args args taskId action \<and> taskId \<notin> set inherited_names"
  then have v: "valid_args args taskId action" and p: "taskId \<notin> set inherited_names"
    by simp_all
  show "consecutiveSkips (task_of (snd (recordReminderInteraction h args w)) taskId) =
       (let n = consecutiveSkips (task_of w taskId)
        in if action = js ''skip'' then n + 1
           else if action = js ''complete'' \<or> action = js ''snooze'' then 0
           else n)"
    by (simp add: rRI_task(2)[OF v p] skips_after_def)
next
  show r: "recordReminderInteraction h (args_for (js ''constructor'') (js ''skip'')) initial_world =
       (Rejects (TypeError (undefined_read_message h)), initial_world)"
    by (simp add: rRI_inherited)
  show "consecutiveSkips (task_of (snd (recordReminderInteraction h
         (args_for (js ''constructor'') (js ''skip'')) initial_world)) (js ''constructor'')) = 0"
    by (simp add: r new_task_state_def)
qed

theorem counter_update_witness:
  "valid_args (args_for (js ''t1'') (js ''skip'')) (js ''t1'') (js ''skip'')
   \<and> js ''t1'' \<notin> set inherited_names
   \<and> consecutiveSkips (task_of (snd (recordReminderInteraction (offline_env 1700000000000)
         (args_for (js ''t1'') (js ''skip'')) initial_world)) (js ''t1'')) = 1"
  using counter_update[where args = "args_for (js ''t1'') (js ''skip'')" and taskId = "js ''t1''"
      and action = "js ''skip''" and h = "offline_env 1700000000000" and w = initial_world]
  by (simp add: new_task_state_def)

subsection \<open>Bounded history\<close>



subsection \<open>Heuristic reminder interval\<close>

text \<open>
  Claim C4, as the code has it. On the heuristic path the recommended interval is
  the maximum of 15 and the rounded half of the previous interval (a tie rounds
  upwards), where the previous interval is the number the caller supplied in
  \<^verbatim>\<open>context.reminderIntervalMinutes\<close> when that number is not zero, and 45 when
  the caller supplied none or a falsy value. The result is never below 15, and it is
  23 for a previous interval of 45.
\<close>

theorem heuristic_interval_rule:
  "(get_prop (sm_context sm) (js ''reminderIntervalMinutes'') = JNumber (Fin r) \<and> r \<noteq> 0 \<longrightarrow>
      heuristic_interval h sm = JNumber (Fin (of_int (claimed_interval (Some r)))))
   \<and> (\<not> truthy (get_prop (sm_context sm) (js ''reminderIntervalMinutes'')) \<longrightarrow>
      heuristic_interval h sm = JNumber (Fin (of_int (claimed_interval None))))
   \<and> (\<exists>n. heuristic_interval h sm = JNumber n \<and> \<not> js_less n (Fin 15))
   \<and> (get_prop (sm_context sm) (js ''reminderIntervalMinutes'') = JNumber (Fin 45) \<longrightarrow>
      heuristic_interval h sm = JNumber (Fin 23))"
proof (intro conjI impI)
  assume "get_prop (sm_context sm) (js ''reminderIntervalMinutes'') = JNumber (Fin r) \<and> r \<noteq> 0"
  then show "heuristic_interval h sm = JNumber (Fin (of_int (claimed_interval (Some r))))"
    by (simp add: heuristic_interval_eq js_or_def claimed_interval_def round_def)
next
  assume "\<not> truthy (get_prop (sm_context sm) (js ''reminderIntervalMinutes''))"
  then show "heuristic_interval h sm = JNumber (Fin (of_int (claimed_interval None)))"
    by (simp add: heuristic_interval_eq js_or_def claimed_interval_def round_def)
next
  show "\<exists>n. heuristic_interval h sm = JNumber n \<and> \<not> js_less n (Fin 15)"
    by (simp add: heuristic_interval_eq Math_max_15_not_less)
next
  assume "get_prop (sm_context sm) (js ''reminderIntervalMinutes'') = JNumber (Fin 45)"
  then show "heuristic_interval h sm = JNumber (Fin 23)"
    by (simp add: heuristic_interval_eq js_or_def)
qed

theorem heuristic_interval_rule_witness:
  "get_prop (sm_context (summary_with (JObject [((js ''reminderIntervalMinutes''), JNumber (Fin 45))])))
       (js ''reminderIntervalMinutes'') = JNumber (Fin 45)
   \<and> (45 :: rat) \<noteq> 0
   \<and> heuristic_interval (offline_env 0)
        (summary_with (JObject [((js ''reminderIntervalMinutes''), JNumber (Fin 45))])) = JNumber (Fin 23)
   \<and> claimed_interval (Some 45) = 23"
  using heuristic_interval_rule[of "summary_with (JObject [((js ''reminderIntervalMinutes''), JNumber (Fin 45))])"
      45 "offline_env 0"]
  by (simp add: summary_with_def claimed_interval_def round_def)

text \<open>
  C4 words the default as applying to an unspecified interval only. For a supplied
  interval of 0 its formula gives 15, and the code gives 23.
\<close>

theorem zero_interval_not_halved:
  "heuristic_interval (offline_env 0)
      (summary_with (JObject [((js ''reminderIntervalMinutes''), JNumber (Fin 0))])) = JNumber (Fin 23)
   \<and> claimed_interval (Some 0) = 15
   \<and> heuristic_interval (offline_env 0)
        (summary_with (JObject [((js ''reminderIntervalMinutes''), JNumber (Fin 0))]))
      \<noteq> JNumber (Fin (of_int (claimed_interval (Some 0))))"
  by (simp add: heuristic_interval_eq summary_with_def js_or_def claimed_interval_def round_def)

text \<open>
  Claim C10. On the heuristic path a falsy \<^verbatim>\<open>context.reminderIntervalMinutes\<close>
  (0, \<^verbatim>\<open>null\<close>, the empty string, \<^verbatim>\<open>undefined\<close>, NaN, \<^verbatim>\<open>false\<close>) is treated
  as an interval that was not given: the recommended interval is 23, never 15.
\<close>

theorem falsy_interval_uses_default:
  "(\<not> truthy (get_prop (sm_context sm) (js ''reminderIntervalMinutes'')) \<longrightarrow>
      heuristic_interval h sm = JNumber (Fin 23)
      \<and> heuristic_interval h sm \<noteq> JNumber (Fin 15)
      \<and> heuristic_interval h sm = heuristic_interval h (sm\<lparr>sm_context := JObject []\<rparr>))
   \<and> \<not> truthy (JNumber (Fin 0)) \<and> \<not> truthy JNull \<and> \<not> truthy (JString [])
   \<and> \<not> truthy JUndefined \<and> \<not> truthy (JNumber NaN) \<and> \<not> truthy (JBool False)"
  by (simp add: heuristic_interval_eq js_or_def)

theorem falsy_interval_uses_default_witness:
  "\<not> truthy (get_prop (sm_context (summary_with (JObject [((js ''reminderIntervalMinutes''), JNumber (Fin 0))])))
       (js ''reminderIntervalMinutes''))
   \<and> heuristic_interval (offline_env 0)
        (summary_with (JObject [((js ''reminderIntervalMinutes''), JNumber (Fin 0))])) = JNumber (Fin 23)"
  using falsy_interval_uses_default[of "summary_with (JObject [((js ''reminderIntervalMinutes''), JNumber (Fin 0))])"
      "offline_env 0"]
  by (simp add: summary_with_def)

subsection \<open>Failures\<close>

text \<open>
  Claim C5, as the code has it. With a task identifier that is not the name of an
  inherited member, \<^verbatim>\<open>recordReminderInteraction\<close> fails exactly when the task
  identifier or the action is empty or missing. Being an async function it fails by
  rejecting the promise it returns, never by throwing while it is called, and the state
  is then unchanged, since the check comes first. Whatever goes wrong with the
  completion service (no API key, a rejected request, a response that is not 2xx, a
  response without text, a text that is not JSON), neither
  \<^verbatim>\<open>recordReminderInteraction\<close> nor \<^verbatim>\<open>organizeBrainDump\<close> rejects: the
  result is the heuristic one, carrying the failure's message as \<^verbatim>\<open>error\<close>, or
  the raw text as \<^verbatim>\<open>rawResponse\<close> when the text did not parse.
\<close>

theorem failures_degrade:
  "((\<forall>t \<in> set inherited_names. a_taskId args \<noteq> Some t) \<longrightarrow>
      (\<exists>e. fst (recordReminderInteraction h args w) = Rejects e) =
        (missing (a_taskId args) \<or> missing (a_action args)))
   \<and> (\<nexists>e. fst (recordReminderInteraction h args w) = Throws e)
   \<and> (\<exists>res. fst (organizeBrainDump h items forceFallback w) = Resolves res)
   \<and> (missing (a_taskId args) \<or> missing (a_action args) \<longrightarrow>
        snd (recordReminderInteraction h args w) = w)
   \<and> (has_fetch h \<and> \<not> forceFallback \<and> callOpenAI h = Inl msg \<longrightarrow>
        generateReminderAdjustments h sm forceFallback =
          (fallbackReminderSuggestion h sm)\<lparr>s_error := Some msg\<rparr>
        \<and> fst (organizeBrainDump h items forceFallback w) =
          Resolves (Heuristic ((fallbackBrainDump (normalized items))\<lparr>bd_error := Some msg\<rparr>)))
   \<and> (has_fetch h \<and> \<not> forceFallback \<and> callOpenAI h = Inr t \<and> JSON_parse h t = None \<longrightarrow>
        generateReminderAdjustments h sm forceFallback =
          (fallbackReminderSuggestion h sm)\<lparr>s_rawResponse := Some (JString t)\<rparr>
        \<and> fst (organizeBrainDump h items forceFallback w) =
          Resolves (Heuristic ((fallbackBrainDump (normalized items))\<lparr>bd_rawResponse := Some t\<rparr>)))
   \<and> (valid_args args taskId action \<and> taskId \<notin> set inherited_names
        \<and> due h action (task_of w taskId) \<longrightarrow>
        fst (recordReminderInteraction h args w) =
          Resolves (Some (generateReminderAdjustments h
            (buildReminderSummary taskId
               (task_of (snd (recordReminderInteraction h args w)) taskId)
               (e_context (entry_of h args)))
            (a_forceFallback args))))
   \<and> (api_key h = [] \<longrightarrow> callOpenAI h = Inl (js ''Missing OpenAI API key''))
   \<and> (api_key h \<noteq> [] \<and> fetch_result h = FetchRejected msg \<longrightarrow> callOpenAI h = Inl msg)
   \<and> (api_key h \<noteq> [] \<and> fetch_result h = FetchResponse r \<and> \<not> ok r \<longrightarrow>
        (\<exists>m. callOpenAI h = Inl m)
        \<and> (\<forall>e. json_body r = Inl e \<longrightarrow>
             callOpenAI h = Inl ((js ''OpenAI request failed with status '') @ show_nat (status r))))
   \<and> (api_key h \<noteq> [] \<and> fetch_result h = FetchResponse r \<and> ok r \<and> json_body r = Inr payload
        \<and> (\<forall>s. output_text payload = JString s \<longrightarrow> trim s = []) \<longrightarrow>
        callOpenAI h = Inl (js ''OpenAI returned an unexpected response format''))"
proof (intro conjI impI allI)
  assume "\<forall>t \<in> set inherited_names. a_taskId args \<noteq> Some t"
  then show "(\<exists>e. fst (recordReminderInteraction h args w) = Rejects e) =
      (missing (a_taskId args) \<or> missing (a_action args))"
    by (rule rRI_error_iff)
next
  show "\<nexists>e. fst (recordReminderInteraction h args w) = Throws e"
    by (simp add: rRI_never_throws)
next
  show "\<exists>res. fst (organizeBrainDump h items forceFallback w) = Resolves res"
    by (rule oBD_resolves)
next
  assume "missing (a_taskId args) \<or> missing (a_action args)"
  then show "snd (recordReminderInteraction h args w) = w"
    by (simp add: rRI_invalid)
next
  assume a: "has_fetch h \<and> \<not> forceFallback \<and> callOpenAI h = Inl msg"
  then show "generateReminderAdjustments h sm forceFallback =
          (fallbackReminderSuggestion h sm)\<lparr>s_error := Some msg\<rparr>"
    by (simp add: gRA_error)
  from a show "fst (organizeBrainDump h items forceFallback w) =
          Resolves (Heuristic ((fallbackBrainDump (normalized items))\<lparr>bd_error := Some msg\<rparr>))"
    by (simp add: oBD_error)
next
  assume a: "has_fetch h \<and> \<not> forceFallback \<and> callOpenAI h = Inr t \<and> JSON_parse h t = None"
  then show "generateReminderAdjustments h sm forceFallback =
          (fallbackReminderSuggestion h sm)\<lparr>s_rawResponse := Some (JString t)\<rparr>"
    by (simp add: gRA_raw)
  from a show "fst (organizeBrainDump h items forceFallback w) =
          Resolves (Heuristic ((fallbackBrainDump (normalized items))\<lparr>bd_rawResponse := Some t\<rparr>))"
    by (simp add: oBD_raw)
next
  assume a: "valid_args args taskId action \<and> taskId \<notin> set inherited_names
        \<and> due h action (task_of w taskId)"
  then have v: "valid_args args taskId action" and p: "taskId \<notin> set inherited_names"
    and d: "due h action (task_of w taskId)"
    by simp_all
  show "fst (recordReminderInteraction h args w) =
          Resolves (Some (generateReminderAdjustments h
            (buildReminderSummary taskId
               (task_of (snd (recordReminderInteraction h args w)) taskId)
               (e_context (entry_of h args)))
            (a_forceFallback args)))"
    by (simp add: rRI_result[OF v p] d)
next
  assume "api_key h = []"
  then show "callOpenAI h = Inl (js ''Missing OpenAI API key'')"
    by (rule callOpenAI_missing_key)
next
  assume "api_key h \<noteq> [] \<and> fetch_result h = FetchRejected msg"
  then show "callOpenAI h = Inl msg"
    by (simp add: callOpenAI_rejected)
next
  assume a: "api_key h \<noteq> [] \<and> fetch_result h = FetchResponse r \<and> \<not> ok r"
  then show "\<exists>m. callOpenAI h = Inl m"
    by (simp add: callOpenAI_not_ok)
  fix e
  assume "json_body r = Inl e"
  with a show "callOpenAI h = Inl ((js ''OpenAI request failed with status '') @ show_nat (status r))"
    by (simp add: callOpenAI_not_ok_generic)
next
  assume "api_key h \<noteq> [] \<and> fetch_result h = FetchResponse r \<and> ok r \<and> json_body r = Inr payload
        \<and> (\<forall>s. output_text payload = JString s \<longrightarrow> trim s = [])"
  then show "callOpenAI h = Inl (js ''OpenAI returned an unexpected response format'')"
    by (simp add: callOpenAI_malformed)
qed

theorem failures_degrade_witness:
  "missing (a_taskId ((args_for (js ''t1'') (js ''skip''))\<lparr>a_taskId := None\<rparr>))
   \<and> fst (recordReminderInteraction (keyless_env 1700000000000)
        ((args_for (js ''t1'') (js ''skip''))\<lparr>a_taskId := None\<rparr>) initial_world) =
      Rejects (Error (js ''recordReminderInteraction requires a taskId and action''))
   \<and> snd (recordReminderInteraction (keyless_env 1700000000000)
        ((args_for (js ''t1'') (js ''skip''))\<lparr>a_taskId := None\<rparr>) initial_world) = initial_world
   \<and> has_fetch (keyless_env 1700000000000)
   \<and> callOpenAI (keyless_env 1700000000000) = Inl (js ''Missing OpenAI API key'')
   \<and> generateReminderAdjustments (keyless_env 1700000000000) (summary_with (JObject [])) False =
        (fallbackReminderSuggestion (keyless_env 1700000000000) (summary_with (JObject [])))
          \<lparr>s_error := Some (js ''Missing OpenAI API key'')\<rparr>
   \<and> fst (organizeBrainDump (keyless_env 1700000000000) (Some [js ''call mom'']) False initial_world) =
        Resolves (Heuristic ((fallbackBrainDump [js ''call mom''])\<lparr>bd_error := Some (js ''Missing OpenAI API key'')\<rparr>))"
  using failures_degrade[where h = "keyless_env 1700000000000"
      and args = "(args_for (js ''t1'') (js ''skip''))\<lparr>a_taskId := None\<rparr>" and w = initial_world
      and forceFallback = False and msg = "(js ''Missing OpenAI API key'')"
      and sm = "summary_with (JObject [])" and items = "Some [js ''call mom'']"]
  by (simp add: args_for_def missing_def normalized_def rRI_invalid)

text \<open>
  C5 says that the invalid call throws synchronously. The function is declared
  \<^verbatim>\<open>async\<close>: the call returns a promise, and the error is its rejection. The
  call with the task identifier \<^verbatim>\<open>constructor\<close> and the action \<^verbatim>\<open>skip\<close> is
  rejected as well, although neither of the two is empty or missing.
\<close>

theorem invalid_call_rejects:
  "missing (a_taskId ((args_for (js ''t1'') (js ''skip''))\<lparr>a_taskId := None\<rparr>))
   \<and> fst (recordReminderInteraction (offline_env 1700000000000)
        ((args_for (js ''t1'') (js ''skip''))\<lparr>a_taskId := None\<rparr>) initial_world) =
      Rejects (Error (js ''recordReminderInteraction requires a taskId and action''))
   \<and> (\<nexists>e. fst (recordReminderInteraction (offline_env 1700000000000)
        ((args_for (js ''t1'') (js ''skip''))\<lparr>a_taskId := None\<rparr>) initial_world) = Throws e)
   \<and> \<not> missing (a_taskId (args_for (js ''constructor'') (js ''skip'')))
   \<and> \<not> missing (a_action (args_for (js ''constructor'') (js ''skip'')))
   \<and> fst (recordReminderInteraction (offline_env 1700000000000)
        (args_for (js ''constructor'') (js ''skip'')) initial_world) =
      Rejects (TypeError (undefined_read_message (offline_env 1700000000000)))"
  by (simp add: rRI_inherited rRI_never_throws)
    (simp add: args_for_def missing_def recordReminderInteraction_def)

subsection \<open>Heuristic categorizer\<close>

text \<open>
  Claim C6. The heuristic categorizer puts each item that is not blank, trimmed, into
  the bucket of the first rule, in the order 2-minute Wins, Prep and Planning, Deep
  Work, Personal Care, whose keywords occur in it without regard to case, and into
  Miscellaneous when no rule matches; every bucket holds its texts in the order of the
  items. For the items \<^verbatim>\<open>call mom\<close>, \<^verbatim>\<open>write report\<close>,
  \<^verbatim>\<open>nonsense xyz\<close> with forced fallback the buckets are 2-minute Wins, Deep Work
  and Miscellaneous with one item each, and the focus recommendation names 2-minute
  Wins.
\<close>

theorem categorizer_first_match:
  "map_of (categories (fallbackBrainDump items)) lbl =
     (let xs = filter (\<lambda>t. spec_label t = lbl) (non_blank items)
      in if xs = [] then None else Some xs)
   \<and> distinct (map fst (categories (fallbackBrainDump items)))
   \<and> bucket_label t = spec_label t
   \<and> categories (fallbackBrainDump example_items) =
       [(js ''2-minute Wins'', [js ''call mom'']), ((js ''Deep Work''), [js ''write report'']),
        ((js ''Miscellaneous''), [js ''nonsense xyz''])]
   \<and> focusRecommendation (fallbackBrainDump example_items) =
       js ''Start with one item from '' @ [34] @ js ''2-minute Wins'' @ [34] @ js '' today.''
   \<and> fst (organizeBrainDump h (Some example_items) True w) =
       Resolves (Heuristic (fallbackBrainDump example_items))"
proof (intro conjI)
  show "map_of (categories (fallbackBrainDump items)) lbl =
     (let xs = filter (\<lambda>t. spec_label t = lbl) (non_blank items)
      in if xs = [] then None else Some xs)"
    by (rule map_of_categories)
  show "distinct (map fst (categories (fallbackBrainDump items)))"
    using well_formed_categories by (simp add: well_formed_def)
  show "bucket_label t = spec_label t"
    by (rule bucket_label_spec)
  show "categories (fallbackBrainDump example_items) =
       [(js ''2-minute Wins'', [js ''call mom'']), ((js ''Deep Work''), [js ''write report'']),
        ((js ''Miscellaneous''), [js ''nonsense xyz''])]"
    by (rule example_categories)
  show "focusRecommendation (fallbackBrainDump example_items) =
       js ''Start with one item from '' @ [34] @ js ''2-minute Wins'' @ [34] @ js '' today.''"
    by (rule example_focus)
  show "fst (organizeBrainDump h (Some example_items) True w) =
       Resolves (Heuristic (fallbackBrainDump example_items))"
    by (simp add: organizeBrainDump_def Let_def normalized_def)
qed

theorem categorizer_first_match_witness:
  "map_of (categories (fallbackBrainDump example_items)) (js ''Deep Work'') = Some [js ''write report'']
   \<and> filter (\<lambda>t. spec_label t = js ''Deep Work'') (non_blank example_items) = [js ''write report'']"
  using categorizer_first_match[where items = example_items and lbl = "(js ''Deep Work'')"]
    example_deep_work
  by (simp add: Let_def)

text \<open>
  Claim C7, as the code has it. Blank items are put into no bucket, and the summary
  is \<^verbatim>\<open>Organized n items into k categories.\<close> where \<open>n\<close> is the number of all
  items given, the blank ones included, and \<open>k\<close> is the number of buckets, each of
  which is non-empty, or 1 when there is none.
\<close>

theorem summary_counts_all_items:
  "summary (fallbackBrainDump items) =
     js ''Organized '' @ show_nat (length items) @ js '' items into ''
       @ show_nat (max 1 (card (spec_label ` set (non_blank items)))) @ js '' categories.''
   \<and> length (categories (fallbackBrainDump items)) = card (spec_label ` set (non_blank items))
   \<and> (\<forall>entry \<in> set (categories (fallbackBrainDump items)). snd entry \<noteq> [])
   \<and> set (concat (map snd (categories (fallbackBrainDump items)))) = set (non_blank items)
   \<and> total_size (categories (fallbackBrainDump items)) = length (non_blank items)"
proof (intro conjI)
  show "summary (fallbackBrainDump items) =
     js ''Organized '' @ show_nat (length items) @ js '' items into ''
       @ show_nat (max 1 (card (spec_label ` set (non_blank items)))) @ js '' categories.''"
    by (simp only: summary_fallback length_categories)
  show "length (categories (fallbackBrainDump items)) = card (spec_label ` set (non_blank items))"
    by (rule length_categories)
  show "\<forall>entry \<in> set (categories (fallbackBrainDump items)). snd entry \<noteq> []"
    using well_formed_categories by (simp add: well_formed_def)
  show "set (concat (map snd (categories (fallbackBrainDump items)))) = set (non_blank items)"
    by (rule texts_categories)
  show "total_size (categories (fallbackBrainDump items)) = length (non_blank items)"
    using fold_total_size[of "[]" items]
    by (simp add: categories_fallback well_formed_def total_size_def)
qed

theorem summary_counts_all_items_witness:
  "summary (fallbackBrainDump [js ''   '', js ''call mom'']) = js ''Organized 2 items into 1 categories.''
   \<and> set (concat (map snd (categories (fallbackBrainDump [js ''   '', js ''call mom''])))) = {js ''call mom''}"
  using summary_counts_all_items[where items = "[js ''   '', js ''call mom'']"]
  by (simp add: blank_example show_nat_examples js_append)

text \<open>
  C7 takes \<open>n\<close> to be the number of items that are not blank. The code prints
  \<^verbatim>\<open>items.length\<close>: for one blank item and one task the summary counts 2 items,
  whether the blank item consists of spaces or of a no-break space.
\<close>

theorem summary_counts_blank_items:
  "summary (fallbackBrainDump [js ''   '', js ''call mom'']) = js ''Organized 2 items into 1 categories.''
   \<and> length (non_blank [js ''   '', js ''call mom'']) = 1
   \<and> claimed_summary [js ''   '', js ''call mom''] = js ''Organized 1 items into 1 categories.''
   \<and> summary (fallbackBrainDump [js ''   '', js ''call mom'']) \<noteq> claimed_summary [js ''   '', js ''call mom'']
   \<and> categories (fallbackBrainDump [[160], js ''call mom'']) = [(js ''2-minute Wins'', [js ''call mom''])]
   \<and> summary (fallbackBrainDump [[160], js ''call mom'']) = js ''Organized 2 items into 1 categories.''
   \<and> claimed_summary [[160], js ''call mom''] = js ''Organized 1 items into 1 categories.''"
  by (simp add: summary_fallback claimed_summary_def blank_categories blank_example
      show_nat_examples js_append)

subsection \<open>Brain dump log\<close>

text \<open>
  Claim C8. Every call of \<^verbatim>\<open>organizeBrainDump\<close>, whatever its argument (one that
  is not an array counts as the empty list), its options and the fate of the
  categorization, appends exactly one record with the normalized items to
  \<^verbatim>\<open>brainDumpHistory\<close> and persists the state; the state it leaves does not
  depend on the network or on the categorizer. No call of the API changes or removes
  a record that is already there: the log only grows.
\<close>

theorem brain_dump_log_appended:
  "snd (organizeBrainDump h items forceFallback w) =
     persistState h
       (w\<lparr>state := (state w)
          \<lparr>brainDumpHistory := brainDumpHistory (state w)
             @ [\<lparr>r_items = normalized items, r_timestamp = now_iso h\<rparr>]\<rparr>\<rparr>)
   \<and> brainDumpHistory (state (snd (organizeBrainDump h items forceFallback w))) =
       brainDumpHistory (state w) @ [\<lparr>r_items = normalized items, r_timestamp = now_iso h\<rparr>]
   \<and> normalized None = [] \<and> normalized (Some xs) = xs
   \<and> brainDumpHistory (state (snd (recordReminderInteraction h args w))) = brainDumpHistory (state w)
   \<and> brainDumpHistory (state (resetTaskHistory h taskId w)) = brainDumpHistory (state w)
   \<and> prefix (brainDumpHistory (state w)) (brainDumpHistory (state (run calls w)))"
  by (simp add: oBD_snd normalized_def rRI_brainDumpHistory reset_brainDumpHistory
      run_brainDumpHistory)

theorem brain_dump_log_appended_witness:
  "brainDumpHistory (state (snd (organizeBrainDump (keyless_env 1700000000000) None False initial_world))) =
     [\<lparr>r_items = [], r_timestamp = (js ''2023-11-14T22:13:20.000Z'')\<rparr>]
   \<and> brainDumpHistory (state (snd (organizeBrainDump (offline_env 1700000000000) (Some []) True initial_world))) =
     [\<lparr>r_items = [], r_timestamp = (js ''2023-11-14T22:13:20.000Z'')\<rparr>]"
  using brain_dump_log_appended[where h = "keyless_env 1700000000000" and items = None
      and forceFallback = False and w = initial_world]
    brain_dump_log_appended[where h = "offline_env 1700000000000" and items = "Some []"
      and forceFallback = True and w = initial_world]
  by (simp add: initial_world_def initial_state_def keyless_env_def offline_env_def)

subsection \<open>Reset\<close>

text \<open>
  Claim C9. For a task identifier that is not the name of an inherited member,
  \<^verbatim>\<open>resetTaskHistory(taskId)\<close> removes the task's record and its last suggestion,
  so that \<^verbatim>\<open>getLastSuggestion(taskId)\<close> is \<^verbatim>\<open>null\<close> right after it; nothing
  else changes, and nothing changes at all when the task had neither. For the empty
  identifier, on which the function returns at once, this holds in every state that
  calls of the API can reach, where nothing is stored under it. For the identifier
  \<^verbatim>\<open>constructor\<close> the claim fails in every state: what
  \<^verbatim>\<open>getLastSuggestion\<close> returns right after the reset is the inherited member,
  not \<^verbatim>\<open>null\<close>.
\<close>

theorem reset_then_no_suggestion:
  "(taskId \<notin> set inherited_names \<and> (taskId \<noteq> [] \<or> w = run calls initial_world) \<longrightarrow>
     (let w' = resetTaskHistory h taskId w
      in tasks (state w') taskId = None
         \<and> lastSuggestion (state w') taskId = None
         \<and> getLastSuggestion taskId w' = Absent
         \<and> (\<forall>other. other \<noteq> taskId \<longrightarrow>
               tasks (state w') other = tasks (state w) other
               \<and> lastSuggestion (state w') other = lastSuggestion (state w) other
               \<and> getLastSuggestion other w' = getLastSuggestion other w)
         \<and> brainDumpHistory (state w') = brainDumpHistory (state w)
         \<and> (tasks (state w) taskId = None \<and> lastSuggestion (state w) taskId = None \<longrightarrow>
               state w' = state w)))
   \<and> getLastSuggestion (js ''constructor'') (resetTaskHistory h (js ''constructor'') w) = Inherited
   \<and> getLastSuggestion (js ''constructor'') (resetTaskHistory h (js ''constructor'') w) \<noteq> Absent"
proof (intro conjI impI)
  assume a: "taskId \<notin> set inherited_names \<and> (taskId \<noteq> [] \<or> w = run calls initial_world)"
  show "let w' = resetTaskHistory h taskId w
      in tasks (state w') taskId = None
         \<and> lastSuggestion (state w') taskId = None
         \<and> getLastSuggestion taskId w' = Absent
         \<and> (\<forall>other. other \<noteq> taskId \<longrightarrow>
               tasks (state w') other = tasks (state w) other
               \<and> lastSuggestion (state w') other = lastSuggestion (state w) other
               \<and> getLastSuggestion other w' = getLastSuggestion other w)
         \<and> brainDumpHistory (state w') = brainDumpHistory (state w)
         \<and> (tasks (state w) taskId = None \<and> lastSuggestion (state w) taskId = None \<longrightarrow>
               state w' = state w)"
  proof (cases "taskId = []")
    case False
    with a show ?thesis
      by (simp add: Let_def resetTaskHistory_def getLastSuggestion_def obj_lookup_def fun_upd_idem)
  next
    case True
    with a have "w = run calls initial_world" by simp
    then have "no_reserved_key w"
      by (simp add: no_reserved_key_run no_reserved_key_initial)
    with True a show ?thesis
      by (simp add: Let_def resetTaskHistory_def getLastSuggestion_def obj_lookup_def
          no_reserved_key_def)
  qed
next
  show i: "getLastSuggestion (js ''constructor'') (resetTaskHistory h (js ''constructor'') w) = Inherited"
    by (simp add: resetTaskHistory_def getLastSuggestion_def obj_lookup_def)
  show "getLastSuggestion (js ''constructor'') (resetTaskHistory h (js ''constructor'') w) \<noteq> Absent"
    by (simp add: i)
qed

theorem reset_then_no_suggestion_witness:
  "js ''t1'' \<notin> set inherited_names \<and> js ''t1'' \<noteq> []
   \<and> getLastSuggestion (js ''t1'')
       (run [(offline_env 1700000000000, RecordReminderInteraction (args_for (js ''t1'') (js ''skip''))),
             (offline_env 1700000060000, RecordReminderInteraction (args_for (js ''t1'') (js ''skip''))),
             (offline_env 1700000120000, RecordReminderInteraction (args_for (js ''t1'') (js ''skip'')))]
          initial_world) \<noteq> Absent
   \<and> getLastSuggestion (js ''t1'') (resetTaskHistory (offline_env 1700000180000) (js ''t1'')
       (run [(offline_env 1700000000000, RecordReminderInteraction (args_for (js ''t1'') (js ''skip''))),
             (offline_env 1700000060000, RecordReminderInteraction (args_for (js ''t1'') (js ''skip''))),
             (offline_env 1700000120000, RecordReminderInteraction (args_for (js ''t1'') (js ''skip'')))]
          initial_world)) = Absent"
  using reset_then_no_suggestion[where taskId = "js ''t1''" and h = "offline_env 1700000180000"
      and w = "run [(offline_env 1700000000000, RecordReminderInteraction (args_for (js ''t1'') (js ''skip''))),
             (offline_env 1700000060000, RecordReminderInteraction (args_for (js ''t1'') (js ''skip''))),
             (offline_env 1700000120000, RecordReminderInteraction (args_for (js ''t1'') (js ''skip'')))]
          initial_world"]
    three_skips_suggestion
  by (auto simp add: Let_def getLastSuggestion_def obj_lookup_def split: option.splits)

end
